theory Spec2Isabelle
  imports Main "HOL-Library.Word"
begin

section \<open>Inpaint mask binarization (appRU.py, lines 672-675)\<close>

text \<open>
  \<^verbatim>\<open>mask_image = Image.open(...).convert("L")\<close> yields an 8-bit grayscale image; \<^verbatim>\<open>np.array\<close>
  turns it into rows of unsigned bytes. \<^verbatim>\<open>np.where(mask_array < 255, 0, 255)\<close> gives an array
  of Python integers, and \<^verbatim>\<open>.astype(np.uint8)\<close> converts each of them back to a byte.
\<close>

type_synonym gray_image = "8 word list list"

definition np_where_lt_255 :: "8 word \<Rightarrow> int" where
  "np_where_lt_255 v = (if v < 255 then 0 else 255)"

definition astype_uint8 :: "int \<Rightarrow> 8 word" where
  "astype_uint8 i = word_of_int i"

definition binarize_mask :: "gray_image \<Rightarrow> gray_image" where
  "binarize_mask mask_array = map (map (\<lambda>v. astype_uint8 (np_where_lt_255 v))) mask_array"

text \<open>
  \<^verbatim>\<open>Image.fromarray(mask_array).resize(init_image.size, resample=Image.NEAREST)\<close>: nearest
  resampling copies, for each pixel of the result, one pixel of its argument. Which one
  is the imaging library's business; the two index maps are parameters here. The size is
  (width, height), as in the library.
\<close>

definition resize_nearest ::
  "(nat \<Rightarrow> nat) \<Rightarrow> (nat \<Rightarrow> nat) \<Rightarrow> nat \<times> nat \<Rightarrow> gray_image \<Rightarrow> gray_image" where
  "resize_nearest src_row src_col sz img =
     map (\<lambda>i. map (\<lambda>j. img ! src_row i ! src_col j) [0..<fst sz]) [0..<snd sz]"

definition derived_mask ::
  "(nat \<Rightarrow> nat) \<Rightarrow> (nat \<Rightarrow> nat) \<Rightarrow> nat \<times> nat \<Rightarrow> gray_image \<Rightarrow> gray_image" where
  "derived_mask src_row src_col sz mask_array =
     resize_nearest src_row src_col sz (binarize_mask mask_array)"

section \<open>Python values, exceptions and control flow\<close>

text \<open>
  The dispatchers of appRU.py are stateful: they read and write module globals, call
  into model libraries that may raise, and leave through \<^verbatim>\<open>return\<close> from inside
  \<^verbatim>\<open>try\<close> blocks. The embedding is a state-passing one. A statement maps a world to an
  outcome and a world; the outcome says whether control goes on to the next statement
  (\<open>Norm\<close>, with the value of an expression), leaves the function (\<open>Ret\<close>) or unwinds with
  an exception (\<open>Exc\<close>).

  An exception is its class and the text \<^verbatim>\<open>str(e)\<close> gives. The classes are the ones the
  handlers of the file tell apart; \<open>KeyboardInterrupt\<close> stands for the exceptions that are
  not instances of \<^verbatim>\<open>Exception\<close>.
\<close>

datatype exn_class = ValueError | KeyError | OSError | RuntimeError | AssertionError
  | AttributeError | TypeError | UnboundLocalError | NameError | OtherException
  | KeyboardInterrupt

datatype exn = Exn (exn_class_of: exn_class) (str_of: string)

definition is_Exception :: "exn \<Rightarrow> bool" where
  "is_Exception e = (exn_class_of e \<noteq> KeyboardInterrupt)"

datatype model_kind = Tokenizer | LLM_Transformers | LLM_Llama | TTS_Model | Whisper_Model
  | SD_Pipeline | VAE_Model | Upscaler | Video_Pipeline | MusicGen_Model | AudioGen_Model
  | MBD_Model

text \<open>
  The values a variable of the file can hold where the kind of value matters: \<^verbatim>\<open>None\<close>, a
  string, a loaded model (its kind and the path it was loaded from) or a 2-tuple.
\<close>

datatype pyval = PyNone | PyStr string | PyModel model_kind string | PyPair pyval pyval

fun truthy :: "pyval \<Rightarrow> bool" where
  "truthy PyNone = False"
| "truthy (PyStr s) = (s \<noteq> [])"
| "truthy (PyModel k p) = True"
| "truthy (PyPair a b) = True"

fun type_name :: "pyval \<Rightarrow> string" where
  "type_name PyNone = ''NoneType''"
| "type_name (PyStr s) = ''str''"
| "type_name (PyModel k p) = ''model''"
| "type_name (PyPair a b) = ''tuple''"

text \<open>A form field that is \<^verbatim>\<open>None\<close> or a string; \<^verbatim>\<open>not x\<close> holds for \<^verbatim>\<open>None\<close> and for \<^verbatim>\<open>""\<close>.\<close>

definition truthy_str :: "string option \<Rightarrow> bool" where
  "truthy_str s = (case s of None \<Rightarrow> False | Some t \<Rightarrow> t \<noteq> [])"

definition fmt :: "string option \<Rightarrow> string" where
  "fmt s = (case s of None \<Rightarrow> ''None'' | Some t \<Rightarrow> t)"

datatype ('r, 'a) res = Norm 'a | Ret 'r | Exc exn

text \<open>
  What a call leaves behind, in order: the external call at a source line, entering a
  \<^verbatim>\<open>try\<close> statement with a \<^verbatim>\<open>finally\<close> clause (at the line of the \<^verbatim>\<open>try\<close>), a model brought into
  memory, a \<^verbatim>\<open>del\<close> of a name bound to a value, \<^verbatim>\<open>torch.cuda.empty_cache()\<close>, a directory
  made, a download (from, to) and a file written.
\<close>

datatype event = Called nat | EnterTry nat | Loaded model_kind string | Released pyval
  | CacheCleared | DirMade string | Fetched string string | FileWritten string

text \<open>
  The module globals, the paths that exist on disk and the log of events. A global name
  that \<^verbatim>\<open>del\<close> has unbound is \<open>None\<close>; one bound to Python's \<^verbatim>\<open>None\<close> is \<open>Some PyNone\<close>.
\<close>

record world =
  stop_signal :: bool
  chat_history :: "(string option \<times> string option) list"
  chat_dir :: "string option"
  tts_model :: "pyval option"
  whisper_model :: "pyval option"
  audiocraft_model_path :: "string option"
  video_pipe :: "pyval option"
  fs :: "string set"
  trace :: "event list"

record datetime =
  year :: nat
  month :: nat
  day :: nat
  hour :: nat
  minute :: nat
  second :: nat

text \<open>
  What one call cannot decide: whether an accelerator is there, whether xformers was
  imported (\<^verbatim>\<open>XFORMERS_AVAILABLE\<close>), which external call raises what (by the source line of
  the call), at which lines the user's stop arrives (\<^verbatim>\<open>stop_all_processes\<close> runs in the
  interface's own thread, so it can set the flag during any step), the clock reading at
  a line, and the texts the models return.
\<close>

record env =
  cuda_available :: bool
  xformers_available :: bool
  raises :: "nat \<Rightarrow> exn option"
  stop_pressed :: "nat \<Rightarrow> bool"
  now :: "nat \<Rightarrow> datetime"
  transcription :: string
  detect_lang :: "string option \<Rightarrow> string"
  llm_text :: string

type_synonym ('r, 'a) prog = "world \<Rightarrow> ('r, 'a) res \<times> world"

definition norm :: "'a \<Rightarrow> ('r, 'a) prog" where
  "norm a w = (Norm a, w)"

definition ret :: "'r \<Rightarrow> ('r, 'a) prog" where
  "ret r w = (Ret r, w)"

definition raise :: "exn \<Rightarrow> ('r, 'a) prog" where
  "raise e w = (Exc e, w)"

definition bnd :: "('r, 'a) prog \<Rightarrow> ('a \<Rightarrow> ('r, 'b) prog) \<Rightarrow> ('r, 'b) prog" where
  "bnd m f w = (case m w of
       (Norm a, w') \<Rightarrow> f a w'
     | (Ret r, w') \<Rightarrow> (Ret r, w')
     | (Exc e, w') \<Rightarrow> (Exc e, w'))"

definition sq :: "('r, 'a) prog \<Rightarrow> ('r, 'b) prog \<Rightarrow> ('r, 'b) prog" where
  "sq m n = bnd m (\<lambda>_. n)"

definition skip :: "('r, unit) prog" where
  "skip = norm ()"

definition ifthen :: "bool \<Rightarrow> ('r, unit) prog \<Rightarrow> ('r, unit) prog" where
  "ifthen c m = (if c then m else skip)"

primrec block :: "('r, unit) prog list \<Rightarrow> ('r, unit) prog" where
  "block [] = skip"
| "block (m # ms) = sq m (block ms)"

primrec for_each :: "('x \<Rightarrow> ('r, unit) prog) \<Rightarrow> 'x list \<Rightarrow> ('r, unit) prog" where
  "for_each f [] = skip"
| "for_each f (x # xs) = sq (f x) (for_each f xs)"

definition log :: "event \<Rightarrow> ('r, unit) prog" where
  "log ev w = (Norm (), w\<lparr>trace := trace w @ [ev]\<rparr>)"

text \<open>
  \<^verbatim>\<open>try: m finally: c\<close>. The clause runs on every way out of \<open>m\<close>; the outcome of \<open>m\<close>
  stands unless the clause itself returns or raises.
\<close>

definition try_finally :: "nat \<Rightarrow> ('r, 'a) prog \<Rightarrow> ('r, unit) prog \<Rightarrow> ('r, 'a) prog" where
  "try_finally line m c w = (case m (w\<lparr>trace := trace w @ [EnterTry line]\<rparr>) of (r, w') \<Rightarrow>
     (case c w' of
        (Norm u, w'') \<Rightarrow> (r, w'')
      | (Ret r', w'') \<Rightarrow> (Ret r', w'')
      | (Exc e, w'') \<Rightarrow> (Exc e, w'')))"

text \<open>\<^verbatim>\<open>try: m except <classes> as e: h\<close>.\<close>

definition try_except ::
  "('r, 'a) prog \<Rightarrow> (exn \<Rightarrow> bool) \<Rightarrow> (exn \<Rightarrow> ('r, 'a) prog) \<Rightarrow> ('r, 'a) prog" where
  "try_except m catches h w = (case m w of
       (Exc e, w') \<Rightarrow> if catches e then h e w' else (Exc e, w')
     | (Norm a, w') \<Rightarrow> (Norm a, w')
     | (Ret r, w') \<Rightarrow> (Ret r, w'))"

text \<open>The call of a function of the file: its \<^verbatim>\<open>return\<close> value is the value of the call.\<close>

definition callf :: "('a, 'a) prog \<Rightarrow> ('r, 'a) prog" where
  "callf body w = (case body w of
       (Norm a, w') \<Rightarrow> (Norm a, w')
     | (Ret a, w') \<Rightarrow> (Norm a, w')
     | (Exc e, w') \<Rightarrow> (Exc e, w'))"

subsection \<open>Steps of the outside world\<close>

text \<open>
  An external call at a source line: the stop may arrive while it runs, and it may raise.
\<close>

definition ext :: "env \<Rightarrow> nat \<Rightarrow> ('r, unit) prog" where
  "ext env line w =
     (let w1 = w\<lparr>stop_signal := stop_signal w \<or> stop_pressed env line,
                 trace := trace w @ [Called line]\<rparr>
      in case raises env line of Some e \<Rightarrow> (Exc e, w1) | None \<Rightarrow> (Norm (), w1))"

text \<open>\<^verbatim>\<open>if stop_signal:\<close> at a source line; the stop may have arrived just before.\<close>

definition check_stop :: "env \<Rightarrow> nat \<Rightarrow> ('r, bool) prog" where
  "check_stop env line w =
     (let w1 = w\<lparr>stop_signal := stop_signal w \<or> stop_pressed env line\<rparr>
      in (Norm (stop_signal w1), w1))"

definition set_stop :: "bool \<Rightarrow> ('r, unit) prog" where
  "set_stop b w = (Norm (), w\<lparr>stop_signal := b\<rparr>)"

definition gets :: "(world \<Rightarrow> 'v) \<Rightarrow> ('r, 'v) prog" where
  "gets f w = (Norm (f w), w)"

definition modify :: "(world \<Rightarrow> world) \<Rightarrow> ('r, unit) prog" where
  "modify f w = (Norm (), f w)"

definition path_exists :: "string \<Rightarrow> ('r, bool) prog" where
  "path_exists p w = (Norm (p \<in> fs w), w)"

text \<open>The apostrophe, as a string.\<close>

definition apos :: string where
  "apos = [CHR 0x27]"

text \<open>
  \<^verbatim>\<open>os.makedirs(p, exist_ok=...)\<close>; without \<^verbatim>\<open>exist_ok\<close> an existing path is a
  \<^verbatim>\<open>FileExistsError\<close>, whose text quotes the path.
\<close>

definition makedirs :: "env \<Rightarrow> nat \<Rightarrow> string \<Rightarrow> bool \<Rightarrow> ('r, unit) prog" where
  "makedirs env line p exist_ok =
     sq (ext env line)
       (bnd (path_exists p) (\<lambda>ex.
        if ex then
          (if exist_ok then skip
           else raise (Exn OSError (''[Errno 17] File exists: '' @ apos @ p @ apos)))
        else modify (\<lambda>w. w\<lparr>fs := insert p (fs w), trace := trace w @ [DirMade p]\<rparr>)))"

text \<open>\<^verbatim>\<open>Repo.clone_from(url, p)\<close> and \<^verbatim>\<open>requests.get(url)\<close> written to \<open>p\<close>.\<close>

definition fetch :: "env \<Rightarrow> nat \<Rightarrow> string \<Rightarrow> string \<Rightarrow> ('r, unit) prog" where
  "fetch env line url p =
     sq (ext env line)
       (modify (\<lambda>w. w\<lparr>fs := insert p (fs w), trace := trace w @ [Fetched url p]\<rparr>))"

definition write_file :: "env \<Rightarrow> nat \<Rightarrow> string \<Rightarrow> ('r, unit) prog" where
  "write_file env line p =
     sq (ext env line)
       (modify (\<lambda>w. w\<lparr>fs := insert p (fs w), trace := trace w @ [FileWritten p]\<rparr>))"

text \<open>A constructor or \<^verbatim>\<open>from_pretrained\<close> call that brings a model into memory.\<close>

definition load_ext :: "env \<Rightarrow> nat \<Rightarrow> model_kind \<Rightarrow> string \<Rightarrow> ('r, pyval) prog" where
  "load_ext env line k p = sq (ext env line) (sq (log (Loaded k p)) (norm (PyModel k p)))"

text \<open>
  \<^verbatim>\<open>v.name(...)\<close> and \<^verbatim>\<open>v(...)\<close> at a source line. On a loaded model they are external
  calls; a string, a tuple and \<^verbatim>\<open>None\<close> have no such method and cannot be called.
\<close>

definition method_call :: "env \<Rightarrow> nat \<Rightarrow> pyval \<Rightarrow> string \<Rightarrow> ('r, unit) prog" where
  "method_call env line v name = (case v of
       PyModel k p \<Rightarrow> ext env line
     | _ \<Rightarrow> raise (Exn AttributeError
              (apos @ type_name v @ apos @ '' object has no attribute '' @ apos @ name @ apos)))"

definition call_obj :: "env \<Rightarrow> nat \<Rightarrow> pyval \<Rightarrow> ('r, unit) prog" where
  "call_obj env line v = (case v of
       PyModel k p \<Rightarrow> ext env line
     | _ \<Rightarrow> raise (Exn TypeError (apos @ type_name v @ apos @ '' object is not callable'')))"

text \<open>\<^verbatim>\<open>del name\<close> of a bound local, and \<^verbatim>\<open>torch.cuda.empty_cache()\<close>.\<close>

definition del_local :: "pyval \<Rightarrow> ('r, unit) prog" where
  "del_local v = log (Released v)"

definition empty_cache :: "('r, unit) prog" where
  "empty_cache = log CacheCleared"

subsection \<open>Paths and timestamps\<close>

text \<open>
  \<^verbatim>\<open>os.path.join(a, b)\<close> on a system whose separator is the slash: a second component
  that starts with the separator replaces the first; no separator is added after an empty
  first component or after one that ends with the separator.
\<close>

definition path_join :: "string \<Rightarrow> string \<Rightarrow> string" where
  "path_join a b =
     (if b \<noteq> [] \<and> hd b = CHR ''/'' then b
      else if a = [] \<or> last a = CHR ''/'' then a @ b
      else a @ ''/'' @ b)"

definition digit :: "nat \<Rightarrow> char" where
  "digit d = ''0123456789'' ! (d mod 10)"

definition pad2 :: "nat \<Rightarrow> string" where
  "pad2 n = [digit (n div 10), digit n]"

definition pad4 :: "nat \<Rightarrow> string" where
  "pad4 n = [digit (n div 1000), digit (n div 100), digit (n div 10), digit n]"

text \<open>
  \<^verbatim>\<open>strftime('%Y%m%d')\<close> and \<^verbatim>\<open>strftime('%Y%m%d_%H%M%S')\<close>. The C library prints the year
  without padding, so a year below 1000 has fewer than four digits; month, day, hour,
  minute and second are padded to two.
\<close>

definition year_str :: "nat \<Rightarrow> string" where
  "year_str y =
     (if y < 10 then [digit y]
      else if y < 100 then [digit (y div 10), digit y]
      else if y < 1000 then [digit (y div 100), digit (y div 10), digit y]
      else pad4 y)"

definition strftime_Ymd :: "datetime \<Rightarrow> string" where
  "strftime_Ymd d = year_str (year d) @ pad2 (month d) @ pad2 (day d)"

definition strftime_YmdHMS :: "datetime \<Rightarrow> string" where
  "strftime_YmdHMS d =
     strftime_Ymd d @ ''_'' @ pad2 (hour d) @ pad2 (minute d) @ pad2 (second d)"

definition valid_datetime :: "datetime \<Rightarrow> bool" where
  "valid_datetime d \<longleftrightarrow> 1 \<le> year d \<and> year d \<le> 9999 \<and> 1 \<le> month d \<and> month d \<le> 12 \<and>
     1 \<le> day d \<and> day d \<le> 31 \<and> hour d < 24 \<and> minute d < 60 \<and> second d < 60"

subsection \<open>Reading and writing the globals\<close>

text \<open>Reading a global name that \<^verbatim>\<open>del\<close> has unbound is a \<^verbatim>\<open>NameError\<close>.\<close>

definition get_global :: "(world \<Rightarrow> pyval option) \<Rightarrow> string \<Rightarrow> ('r, pyval) prog" where
  "get_global f name w = (case f w of
       None \<Rightarrow> (Exc (Exn NameError (''name '' @ apos @ name @ apos @ '' is not defined'')), w)
     | Some v \<Rightarrow> (Norm v, w))"

definition hist_append :: "string option \<times> string option \<Rightarrow> ('r, unit) prog" where
  "hist_append entry = modify (\<lambda>w. w\<lparr>chat_history := chat_history w @ [entry]\<rparr>)"

section \<open>The loaders (appRU.py, lines 50-212)\<close>

text \<open>
  \<^verbatim>\<open>print\<close> statements and the progress bar are left out throughout; so are the numeric
  settings, which the code hands to the libraries unchanged. The number of an external
  step is the source line of the call.
\<close>

definition msg_stopped :: string where
  "msg_stopped = ''Generation stopped''"

definition load_model ::
  "env \<Rightarrow> string option \<Rightarrow> string \<Rightarrow> ('r, pyval \<times> pyval \<times> string option) prog" where
  "load_model env model_name model_type = callf
     (bnd (check_stop env 52) (\<lambda>stop.
      if stop then ret (PyNone, PyNone, Some msg_stopped)
      else if truthy_str model_name then
        (let model_path = ''inputs/text/llm_models/'' @ fmt model_name in
         if model_type = ''transformers'' then
           try_except
             (bnd (load_ext env 58 Tokenizer model_path) (\<lambda>tokenizer.
              bnd (load_ext env 60 LLM_Transformers model_path) (\<lambda>model.
              ret (tokenizer, model, None))))
             (\<lambda>e. exn_class_of e = OSError \<or> exn_class_of e = RuntimeError)
             (\<lambda>e. ret (PyNone, PyNone, Some
                ''The selected model is not compatible with the 'transformers' model type''))
         else if model_type = ''llama'' then
           try_except
             (bnd (load_ext env 71 LLM_Llama model_path) (\<lambda>model.
              ret (PyNone, model, None)))
             (\<lambda>e. exn_class_of e = ValueError \<or> exn_class_of e = RuntimeError)
             (\<lambda>e. ret (PyNone, PyNone, Some
                ''The selected model is not compatible with the 'llama' model type''))
         else ret (PyNone, PyNone, None))
      else ret (PyNone, PyNone, None)))"

definition whisper_model_path :: string where
  "whisper_model_path = ''inputs/text/whisper-medium''"

definition whisper_url :: string where
  "whisper_url = ''https://openaipublic.azureedge.net/main/whisper/models'' @
     ''/345ae4da62f9b3d59415adc60127b97c714f32e89e936602e85993674d08dcb1/medium.pt''"

definition transcribe_audio :: "env \<Rightarrow> string \<Rightarrow> ('r, string) prog" where
  "transcribe_audio env audio_file_path = callf
     (bnd (check_stop env 82) (\<lambda>stop.
      if stop then ret msg_stopped
      else
        bnd (path_exists whisper_model_path) (\<lambda>ex.
        sq (ifthen (\<not> ex) (block
              [makedirs env 87 whisper_model_path True,
               ext env 90,
               fetch env 91 whisper_url (path_join whisper_model_path ''medium.pt'')]))
        (bnd (load_ext env 93 Whisper_Model (path_join whisper_model_path ''medium.pt''))
           (\<lambda>model.
        sq (ext env 94)
        (ret (transcription env)))))))"

definition tts_model_path :: string where
  "tts_model_path = ''inputs/audio/XTTS-v2''"

definition load_tts_model :: "env \<Rightarrow> ('r, pyval) prog" where
  "load_tts_model env = callf
     (bnd (check_stop env 100) (\<lambda>stop.
      if stop then ret (PyStr msg_stopped)
      else
        bnd (path_exists tts_model_path) (\<lambda>ex.
        sq (ifthen (\<not> ex) (block
              [makedirs env 105 tts_model_path True,
               fetch env 106 ''https://huggingface.co/coqui/XTTS-v2'' tts_model_path]))
        (bnd (load_ext env 108 TTS_Model tts_model_path) (\<lambda>model.
        ret model)))))"

definition load_whisper_model :: "env \<Rightarrow> ('r, pyval) prog" where
  "load_whisper_model env = callf
     (bnd (check_stop env 113) (\<lambda>stop.
      if stop then ret (PyStr msg_stopped)
      else
        bnd (path_exists whisper_model_path) (\<lambda>ex.
        sq (ifthen (\<not> ex) (block
              [makedirs env 118 whisper_model_path True,
               ext env 121,
               fetch env 122 whisper_url (path_join whisper_model_path ''medium.pt'')]))
        (bnd (load_ext env 125 Whisper_Model (path_join whisper_model_path ''medium.pt''))
           (\<lambda>model.
        ret model)))))"

text \<open>The repository cloned for a model name, with the line of the clone (lines 137-148).\<close>

definition audiocraft_repo :: "string \<Rightarrow> (nat \<times> string) option" where
  "audiocraft_repo model_name =
     (if model_name = ''musicgen-stereo-medium'' then
        Some (138, ''https://huggingface.co/facebook/musicgen-stereo-medium'')
      else if model_name = ''audiogen-medium'' then
        Some (140, ''https://huggingface.co/facebook/audiogen-medium'')
      else if model_name = ''musicgen-stereo-melody'' then
        Some (142, ''https://huggingface.co/facebook/musicgen-stereo-melody'')
      else if model_name = ''magnet-medium-30sec'' then
        Some (144, ''https://huggingface.co/facebook/magnet-medium-30secs'')
      else if model_name = ''magnet-medium-10sec'' then
        Some (146, ''https://huggingface.co/facebook/magnet-medium-10secs'')
      else if model_name = ''audio-magnet-medium'' then
        Some (148, ''https://huggingface.co/facebook/audio-magnet-medium'')
      else None)"

definition audiocraft_path_of :: "string \<Rightarrow> string" where
  "audiocraft_path_of model_name =
     path_join (path_join (path_join ''inputs'' ''audio'') ''audiocraft'') model_name"

text \<open>
  The loader assigns the global \<^verbatim>\<open>audiocraft_model_path\<close> itself (line 134) and returns it;
  when stopped it returns the message and leaves the global alone.
\<close>

definition load_audiocraft_model :: "env \<Rightarrow> string \<Rightarrow> ('r, string) prog" where
  "load_audiocraft_model env model_name = callf
     (bnd (check_stop env 130) (\<lambda>stop.
      if stop then ret msg_stopped
      else
        sq (modify (\<lambda>w. w\<lparr>audiocraft_model_path := Some (audiocraft_path_of model_name)\<rparr>))
        (bnd (path_exists (audiocraft_path_of model_name)) (\<lambda>ex.
        sq (ifthen (\<not> ex)
              (sq (makedirs env 136 (audiocraft_path_of model_name) True)
                  (case audiocraft_repo model_name of
                     Some (line, url) \<Rightarrow> fetch env line url (audiocraft_path_of model_name)
                   | None \<Rightarrow> skip)))
        (bnd (gets audiocraft_model_path) (\<lambda>p.
        ret (fmt p)))))))"

definition upscale_model_name :: "nat \<Rightarrow> string" where
  "upscale_model_name upscale_factor =
     (if upscale_factor = 2 then ''stabilityai/sd-x2-latent-upscaler''
      else ''stabilityai/stable-diffusion-x4-upscaler'')"

definition upscale_model_path :: "nat \<Rightarrow> string" where
  "upscale_model_path upscale_factor =
     (if upscale_factor = 2 then ''inputs/image/sd_models/upscale/x2-upscaler''
      else ''inputs/image/sd_models/upscale/x4-upscaler'')"

text \<open>
  When stopped the loader returns the pair \<^verbatim>\<open>(None, "Generation stopped")\<close>, otherwise the
  pipeline alone (line 212).
\<close>

definition load_upscale_model :: "env \<Rightarrow> nat \<Rightarrow> ('r, pyval) prog" where
  "load_upscale_model env upscale_factor = callf
     (bnd (check_stop env 168) (\<lambda>stop.
      if stop then ret (PyPair PyNone (PyStr msg_stopped))
      else
        bnd (path_exists (upscale_model_path upscale_factor)) (\<lambda>ex.
        sq (ifthen (\<not> ex) (block
              [makedirs env 183 (upscale_model_path upscale_factor) True,
               fetch env 184 (''https://huggingface.co/'' @ upscale_model_name upscale_factor)
                 (upscale_model_path upscale_factor)]))
        (bnd (if upscale_factor = 2
              then load_ext env 189 Upscaler (upscale_model_path upscale_factor)
              else load_ext env 196 Upscaler (upscale_model_path upscale_factor)) (\<lambda>upscaler.
        sq (block
              [method_call env 204 upscaler ''to'',
               method_call env 205 upscaler ''enable_attention_slicing'',
               ifthen (xformers_available env)
                 (method_call env 207 upscaler ''enable_xformers_memory_efficient_attention'')])
        (ret upscaler))))))"

section \<open>The audio dispatcher (appRU.py, lines 779-874)\<close>

type_synonym gen_result = "string option \<times> string option"

record audio_args =
  au_prompt :: string
  au_input_audio :: "string option"
  au_model_name :: "string option"
  au_model_type :: string
  au_enable_multiband :: bool

definition msg_no_audiocraft_model :: string where
  "msg_no_audiocraft_model = ''Please, select an AudioCraft model!''"

definition msg_multiband :: string where
  "msg_multiband = ''Multiband Diffusion is not supported with 'audiogen' or 'magnet' model types. Please select 'musicgen' or disable Multiband Diffusion''"

definition msg_magnet :: string where
  "msg_magnet = ''The 'magnet' model type is currently not supported, but it will be available in a future update. Please select another model type for now''"

definition msg_incompatible :: string where
  "msg_incompatible = ''The selected model is not compatible with the chosen model type''"

text \<open>Lines 803-816: the model is built from the global path, whatever it holds.\<close>

definition audio_load_model :: "env \<Rightarrow> audio_args \<Rightarrow> string \<Rightarrow> (gen_result, pyval) prog" where
  "audio_load_model env a p =
     try_except
       (if au_model_type a = ''musicgen'' then
          bnd (load_ext env 805 MusicGen_Model p) (\<lambda>model.
          sq (ext env 806) (norm model))
        else if au_model_type a = ''audiogen'' then
          bnd (load_ext env 808 AudioGen_Model p) (\<lambda>model.
          sq (ext env 809) (norm model))
        else ret (None, Some ''Invalid model type!''))
       (\<lambda>e. exn_class_of e = ValueError \<or> exn_class_of e = AssertionError)
       (\<lambda>e. ret (None, Some msg_incompatible))"

text \<open>Lines 823-868, the body of the \<^verbatim>\<open>try\<close>.\<close>

definition audio_body ::
  "env \<Rightarrow> audio_args \<Rightarrow> string \<Rightarrow> pyval \<Rightarrow> pyval \<Rightarrow> (gen_result, unit) prog" where
  "audio_body env a audio_dir model mbd =
     sq (if truthy_str (au_input_audio a) \<and> au_model_type a = ''musicgen'' then
           sq (block [ext env 827, ext env 828, ext env 830])
              (bnd (check_stop env 834) (\<lambda>stop.
               ifthen stop (ret (None, Some msg_stopped))))
         else
           sq (block [ext env 838, ext env 840])
              (bnd (check_stop env 844) (\<lambda>stop.
               ifthen stop (ret (None, Some msg_stopped)))))
    (sq (ifthen (truthy mbd)
           (bnd (check_stop env 849) (\<lambda>stop.
            if stop then ret (None, Some msg_stopped)
            else block
              [ext env 851, ext env 852,
               write_file env 862 (path_join audio_dir
                 (''audio_'' @ strftime_YmdHMS (now env 860) @ ''_diffusion.wav''))])))
    (sq (write_file env 866
           (path_join audio_dir (''audio_'' @ strftime_YmdHMS (now env 864)) @ ''.wav''))
        (ret (Some (path_join audio_dir (''audio_'' @ strftime_YmdHMS (now env 864)) @ ''.wav''),
              None))))"

text \<open>Lines 870-874, the \<^verbatim>\<open>finally\<close> clause.\<close>

definition audio_cleanup :: "pyval \<Rightarrow> pyval \<Rightarrow> (gen_result, unit) prog" where
  "audio_cleanup model mbd =
     block [del_local model, ifthen (truthy mbd) (del_local mbd), empty_cache]"

definition audio_dir_of :: "env \<Rightarrow> string" where
  "audio_dir_of env = path_join ''outputs'' (''AudioCraft_'' @ strftime_Ymd (now env 799))"

definition generate_audio :: "env \<Rightarrow> audio_args \<Rightarrow> (gen_result, unit) prog" where
  "generate_audio env a =
     sq (set_stop False)
     (case au_model_name a of
        None \<Rightarrow> ret (None, Some msg_no_audiocraft_model)
      | Some model_name \<Rightarrow>
        if model_name = [] then ret (None, Some msg_no_audiocraft_model)
        else if au_enable_multiband a \<and>
                (au_model_type a = ''audiogen'' \<or> au_model_type a = ''magnet'') then
          ret (None, Some msg_multiband)
        else if au_model_type a = ''magnet'' then
          ret (None, Some msg_magnet)
        else
          sq (bnd (gets audiocraft_model_path) (\<lambda>p.
              ifthen (\<not> truthy_str p)
                (bnd (load_audiocraft_model env model_name) (\<lambda>q.
                 modify (\<lambda>w. w\<lparr>audiocraft_model_path := Some q\<rparr>)))))
         (sq (makedirs env 801 (audio_dir_of env) True)
         (bnd (gets audiocraft_model_path) (\<lambda>p.
          bnd (audio_load_model env a (fmt p)) (\<lambda>model.
          bnd (if au_enable_multiband a then load_ext env 821 MBD_Model ''mbd_musicgen''
               else norm PyNone) (\<lambda>mbd.
          try_finally 823 (audio_body env a (audio_dir_of env) model mbd)
            (audio_cleanup model mbd)))))))"

section \<open>The image dispatchers (appRU.py, lines 389-697)\<close>

definition msg_no_sd_model :: string where
  "msg_no_sd_model = ''Please, select a StableDiffusion model!''"

definition msg_invalid_sd_type :: string where
  "msg_invalid_sd_type = ''Invalid StableDiffusion model type!''"

definition msg_sd_not_found :: "string \<Rightarrow> string" where
  "msg_sd_not_found p = ''StableDiffusion model not found: '' @ p"

definition sd_model_path :: "string \<Rightarrow> string" where
  "sd_model_path name =
     path_join (path_join (path_join ''inputs'' ''image'') ''sd_models'') (name @ ''.safetensors'')"

definition inpaint_model_path :: "string \<Rightarrow> string" where
  "inpaint_model_path name =
     path_join (path_join (path_join (path_join ''inputs'' ''image'') ''sd_models'') ''inpaint'')
       (name @ ''.safetensors'')"

definition vae_model_path :: "string \<Rightarrow> string" where
  "vae_model_path name =
     path_join (path_join (path_join (path_join ''inputs'' ''image'') ''sd_models'') ''vae'')
       (name @ ''.safetensors'')"

text \<open>
  \<^verbatim>\<open>outputs/<Category>_<date>/<subtype>_<timestamp><ext>\<close>: the directory is named from one
  clock reading and the file from a second one.
\<close>

definition output_dir :: "string \<Rightarrow> datetime \<Rightarrow> string" where
  "output_dir category today = path_join ''outputs'' (category @ ''_'' @ strftime_Ymd today)"

definition output_path :: "string \<Rightarrow> string \<Rightarrow> string \<Rightarrow> datetime \<Rightarrow> datetime \<Rightarrow> string" where
  "output_path category subtype extn today stamp =
     path_join (output_dir category today) (subtype @ ''_'' @ strftime_YmdHMS stamp @ extn)"

subsection \<open>txt2img (lines 389-490)\<close>

record txt2img_args =
  t2i_prompt :: string
  t2i_model_name :: "string option"
  t2i_vae_model_name :: "string option"
  t2i_lora_model_names :: "string list option"
  t2i_model_type :: string
  t2i_enable_upscale :: bool
  t2i_upscale_factor :: string

text \<open>Lines 405-430.\<close>

definition txt2img_load_pipeline :: "env \<Rightarrow> string \<Rightarrow> string \<Rightarrow> (gen_result, pyval) prog" where
  "txt2img_load_pipeline env model_type p =
     try_except
       (if model_type = ''SD'' then load_ext env 409 SD_Pipeline p
        else if model_type = ''SD2'' then load_ext env 416 SD_Pipeline p
        else if model_type = ''SDXL'' then load_ext env 423 SD_Pipeline p
        else ret (None, Some msg_invalid_sd_type))
       (\<lambda>e. exn_class_of e = ValueError \<or> exn_class_of e = KeyError)
       (\<lambda>e. ret (None, Some msg_incompatible))"

text \<open>Lines 432-457: device placement, the optional VAE and the LoRA weights.\<close>

definition txt2img_prepare :: "env \<Rightarrow> txt2img_args \<Rightarrow> (gen_result, unit) prog" where
  "txt2img_prepare env a =
     block
       [ifthen (xformers_available env) (block [ext env 435, ext env 436, ext env 437]),
        block [ext env 439, ext env 440, ext env 441, ext env 442],
        (case t2i_vae_model_name a of
           None \<Rightarrow> skip
         | Some vae_model_name \<Rightarrow>
             bnd (path_exists (vae_model_path vae_model_name)) (\<lambda>ex.
             ifthen ex
               (bnd (load_ext env 449 VAE_Model (vae_model_path vae_model_name)) (\<lambda>vae.
                ext env 452)))),
        (case t2i_lora_model_names a of
           None \<Rightarrow> skip
         | Some names \<Rightarrow> for_each (\<lambda>lora_model_name. ext env 457) names)]"

text \<open>Lines 460-486, the body of the \<^verbatim>\<open>try\<close>.\<close>

definition txt2img_body :: "env \<Rightarrow> txt2img_args \<Rightarrow> (gen_result, unit) prog" where
  "txt2img_body env a =
     sq (ext env 460)
    (bnd (check_stop env 465) (\<lambda>stop.
     if stop then ret (None, Some msg_stopped)
     else
       sq (ext env 467)
      (sq (ifthen (t2i_enable_upscale a)
             (bnd (load_upscale_model env (if t2i_upscale_factor a = ''x2'' then 2 else 4))
                (\<lambda>upscaler.
              ifthen (truthy upscaler)
                (if t2i_upscale_factor a = ''x2'' then call_obj env 474 upscaler
                 else call_obj env 476 upscaler))))
      (sq (makedirs env 481 (output_dir ''StableDiffusion'' (now env 479)) True)
      (sq (write_file env 484
             (output_path ''StableDiffusion'' ''txt2img'' ''.png'' (now env 479) (now env 482)))
          (ret (Some (output_path ''StableDiffusion'' ''txt2img'' ''.png''
                        (now env 479) (now env 482)), None)))))))"

text \<open>Lines 488-490, the \<^verbatim>\<open>finally\<close> clause.\<close>

definition sd_cleanup :: "pyval \<Rightarrow> (gen_result, unit) prog" where
  "sd_cleanup stable_diffusion_model = block [del_local stable_diffusion_model, empty_cache]"

definition generate_image_txt2img :: "env \<Rightarrow> txt2img_args \<Rightarrow> (gen_result, unit) prog" where
  "generate_image_txt2img env a =
     sq (set_stop False)
     (case t2i_model_name a of
        None \<Rightarrow> ret (None, Some msg_no_sd_model)
      | Some name \<Rightarrow>
        if name = [] then ret (None, Some msg_no_sd_model)
        else
          bnd (path_exists (sd_model_path name)) (\<lambda>ex.
          if \<not> ex then ret (None, Some (msg_sd_not_found (sd_model_path name)))
          else
            bnd (txt2img_load_pipeline env (t2i_model_type a) (sd_model_path name))
              (\<lambda>stable_diffusion_model.
            sq (txt2img_prepare env a)
               (try_finally 459 (txt2img_body env a) (sd_cleanup stable_diffusion_model)))))"

subsection \<open>img2img (lines 493-588)\<close>

record img2img_args =
  i2i_prompt :: string
  i2i_init_image :: "string option"
  i2i_model_name :: "string option"
  i2i_vae_model_name :: "string option"
  i2i_model_type :: string

definition msg_no_init_image :: string where
  "msg_no_init_image = ''Please, upload an initial image!''"

definition img2img_load_pipeline :: "env \<Rightarrow> string \<Rightarrow> string \<Rightarrow> (gen_result, pyval) prog" where
  "img2img_load_pipeline env model_type p =
     try_except
       (if model_type = ''SD'' then load_ext env 517 SD_Pipeline p
        else if model_type = ''SD2'' then load_ext env 524 SD_Pipeline p
        else if model_type = ''SDXL'' then load_ext env 531 SD_Pipeline p
        else ret (None, Some msg_invalid_sd_type))
       (\<lambda>e. exn_class_of e = ValueError \<or> exn_class_of e = KeyError)
       (\<lambda>e. ret (None, Some msg_incompatible))"

text \<open>Lines 540-560.\<close>

definition img2img_prepare :: "env \<Rightarrow> img2img_args \<Rightarrow> (gen_result, unit) prog" where
  "img2img_prepare env a =
     block
       [ifthen (xformers_available env) (block [ext env 543, ext env 544, ext env 545]),
        block [ext env 547, ext env 548, ext env 549, ext env 550],
        (case i2i_vae_model_name a of
           None \<Rightarrow> skip
         | Some vae_model_name \<Rightarrow>
             bnd (path_exists (vae_model_path vae_model_name)) (\<lambda>ex.
             ifthen ex
               (bnd (load_ext env 557 VAE_Model (vae_model_path vae_model_name)) (\<lambda>vae.
                ext env 560))))]"

text \<open>Lines 563-581, the body of the \<^verbatim>\<open>try\<close>.\<close>

definition img2img_body :: "env \<Rightarrow> img2img_args \<Rightarrow> (gen_result, unit) prog" where
  "img2img_body env a =
     sq (block [ext env 563, ext env 564, ext env 566])
    (bnd (check_stop env 570) (\<lambda>stop.
     if stop then ret (None, Some msg_stopped)
     else
       sq (ext env 572)
      (sq (makedirs env 576 (output_dir ''StableDiffusion'' (now env 574)) True)
      (sq (write_file env 579
             (output_path ''StableDiffusion'' ''img2img'' ''.png'' (now env 574) (now env 577)))
          (ret (Some (output_path ''StableDiffusion'' ''img2img'' ''.png''
                        (now env 574) (now env 577)), None))))))"

text \<open>
  Lines 562-588: \<^verbatim>\<open>try\<close>, \<^verbatim>\<open>except Exception as e: return None, str(e)\<close>, \<^verbatim>\<open>finally\<close>.
\<close>

definition img2img_guarded :: "env \<Rightarrow> img2img_args \<Rightarrow> pyval \<Rightarrow> (gen_result, unit) prog" where
  "img2img_guarded env a stable_diffusion_model =
     try_finally 562
       (try_except (img2img_body env a) is_Exception (\<lambda>e. ret (None, Some (str_of e))))
       (sd_cleanup stable_diffusion_model)"

definition generate_image_img2img :: "env \<Rightarrow> img2img_args \<Rightarrow> (gen_result, unit) prog" where
  "generate_image_img2img env a =
     sq (set_stop False)
     (case i2i_model_name a of
        None \<Rightarrow> ret (None, Some msg_no_sd_model)
      | Some name \<Rightarrow>
        if name = [] then ret (None, Some msg_no_sd_model)
        else if \<not> truthy_str (i2i_init_image a) then ret (None, Some msg_no_init_image)
        else
          bnd (path_exists (sd_model_path name)) (\<lambda>ex.
          if \<not> ex then ret (None, Some (msg_sd_not_found (sd_model_path name)))
          else
            bnd (img2img_load_pipeline env (i2i_model_type a) (sd_model_path name))
              (\<lambda>stable_diffusion_model.
            sq (img2img_prepare env a)
               (img2img_guarded env a stable_diffusion_model))))"

subsection \<open>inpaint (lines 591-697)\<close>

text \<open>
  What the mask field can hold: nothing, an editor dictionary (with the value of its
  \<^verbatim>\<open>composite\<close> entry, if any), a path, or something else (with its truth value).
\<close>

datatype mask_input = MaskNone | MaskEmptyDict | MaskDict "string option" | MaskStr string
  | MaskOther bool

fun truthy_mask :: "mask_input \<Rightarrow> bool" where
  "truthy_mask MaskNone = False"
| "truthy_mask MaskEmptyDict = False"
| "truthy_mask (MaskDict c) = True"
| "truthy_mask (MaskStr s) = (s \<noteq> [])"
| "truthy_mask (MaskOther t) = t"

record inpaint_args =
  inp_prompt :: string
  inp_init_image :: "string option"
  inp_mask_image :: mask_input
  inp_model_name :: "string option"
  inp_vae_model_name :: "string option"
  inp_model_type :: string

definition msg_no_init_or_mask :: string where
  "msg_no_init_or_mask = ''Please, upload an initial image and a mask image!''"

definition inpaint_load_pipeline :: "env \<Rightarrow> string \<Rightarrow> string \<Rightarrow> (gen_result, pyval) prog" where
  "inpaint_load_pipeline env model_type p =
     try_except
       (if model_type = ''SD'' then load_ext env 613 SD_Pipeline p
        else if model_type = ''SD2'' then load_ext env 620 SD_Pipeline p
        else if model_type = ''SDXL'' then load_ext env 627 SD_Pipeline p
        else ret (None, Some msg_invalid_sd_type))
       (\<lambda>e. exn_class_of e = ValueError \<or> exn_class_of e = KeyError)
       (\<lambda>e. ret (None, Some msg_incompatible))"

text \<open>Lines 636-656.\<close>

definition inpaint_prepare :: "env \<Rightarrow> inpaint_args \<Rightarrow> (gen_result, unit) prog" where
  "inpaint_prepare env a =
     block
       [ifthen (xformers_available env) (block [ext env 639, ext env 640, ext env 641]),
        block [ext env 643, ext env 644, ext env 645, ext env 646],
        (case inp_vae_model_name a of
           None \<Rightarrow> skip
         | Some vae_model_name \<Rightarrow>
             bnd (path_exists (vae_model_path vae_model_name)) (\<lambda>ex.
             ifthen ex
               (bnd (load_ext env 653 VAE_Model (vae_model_path vae_model_name)) (\<lambda>vae.
                ext env 656))))]"

text \<open>Lines 659-668: opening the mask.\<close>

definition inpaint_open_mask :: "env \<Rightarrow> mask_input \<Rightarrow> (gen_result, unit) prog" where
  "inpaint_open_mask env mask_image = (case mask_image of
       MaskDict None \<Rightarrow>
         raise (Exn ValueError ''Invalid mask image data: missing 'composite' key'')
     | MaskDict (Some composite_path) \<Rightarrow> ext env 664
     | MaskEmptyDict \<Rightarrow>
         raise (Exn ValueError ''Invalid mask image data: missing 'composite' key'')
     | MaskStr s \<Rightarrow> ext env 666
     | _ \<Rightarrow> raise (Exn ValueError ''Invalid mask image format''))"

text \<open>
  Lines 659-693, the body of the \<^verbatim>\<open>try\<close>. Lines 672-673 are \<open>binarize_mask\<close> above; they
  touch no file and no global.
\<close>

definition inpaint_body :: "env \<Rightarrow> inpaint_args \<Rightarrow> (gen_result, unit) prog" where
  "inpaint_body env a =
     sq (inpaint_open_mask env (inp_mask_image a))
    (sq (block [ext env 670, ext env 675, ext env 677])
    (bnd (check_stop env 682) (\<lambda>stop.
     if stop then ret (None, Some msg_stopped)
     else
       sq (ext env 684)
      (sq (makedirs env 688 (output_dir ''StableDiffusion'' (now env 686)) True)
      (sq (write_file env 691
             (output_path ''StableDiffusion'' ''inpaint'' ''.png'' (now env 686) (now env 689)))
          (ret (Some (output_path ''StableDiffusion'' ''inpaint'' ''.png''
                        (now env 686) (now env 689)), None)))))))"

definition generate_image_inpaint :: "env \<Rightarrow> inpaint_args \<Rightarrow> (gen_result, unit) prog" where
  "generate_image_inpaint env a =
     sq (set_stop False)
     (case inp_model_name a of
        None \<Rightarrow> ret (None, Some msg_no_sd_model)
      | Some name \<Rightarrow>
        if name = [] then ret (None, Some msg_no_sd_model)
        else if \<not> truthy_str (inp_init_image a) \<or> \<not> truthy_mask (inp_mask_image a) then
          ret (None, Some msg_no_init_or_mask)
        else
          bnd (path_exists (inpaint_model_path name)) (\<lambda>ex.
          if \<not> ex then ret (None, Some (msg_sd_not_found (inpaint_model_path name)))
          else
            bnd (inpaint_load_pipeline env (inp_model_type a) (inpaint_model_path name))
              (\<lambda>stable_diffusion_model.
            sq (inpaint_prepare env a)
               (try_finally 658 (inpaint_body env a) (sd_cleanup stable_diffusion_model)))))"

section \<open>The video dispatcher (appRU.py, lines 700-747)\<close>

definition video_model_path :: string where
  "video_model_path = path_join (path_join (path_join ''inputs'' ''image'') ''sd_models'') ''video''"

text \<open>
  Lines 716-740, the body of the \<^verbatim>\<open>try\<close>. The local name \<^verbatim>\<open>pipe\<close> is bound once line 716
  has returned; the \<^verbatim>\<open>finally\<close> clause depends on whether it is, so the name lives in the
  world.
\<close>

definition video_body :: "env \<Rightarrow> (gen_result, unit) prog" where
  "video_body env =
     bnd (load_ext env 716 Video_Pipeline video_model_path) (\<lambda>pipe.
     sq (modify (\<lambda>w. w\<lparr>video_pipe := Some pipe\<rparr>))
    (sq (block [ext env 721, ext env 723, ext env 724, ext env 726, ext env 727])
    (bnd (check_stop env 730) (\<lambda>stop.
     if stop then ret (None, Some msg_stopped)
     else
       sq (makedirs env 735 (output_dir ''StableDiffusion'' (now env 733)) True)
      (sq (write_file env 738
             (output_path ''StableDiffusion'' ''video'' ''.mp4'' (now env 733) (now env 736)))
          (ret (Some (output_path ''StableDiffusion'' ''video'' ''.mp4''
                        (now env 733) (now env 736)), None)))))))"

text \<open>\<^verbatim>\<open>del pipe\<close>: an \<^verbatim>\<open>UnboundLocalError\<close> when line 716 never bound the name.\<close>

definition del_pipe :: "(gen_result, unit) prog" where
  "del_pipe w = (case video_pipe w of
       None \<Rightarrow> (Exc (Exn UnboundLocalError
         ''local variable 'pipe' referenced before assignment''), w)
     | Some v \<Rightarrow> (Norm (), w\<lparr>video_pipe := None, trace := trace w @ [Released v]\<rparr>))"

text \<open>Lines 742-747, the \<^verbatim>\<open>finally\<close> clause.\<close>

definition video_cleanup :: "(gen_result, unit) prog" where
  "video_cleanup =
     sq (try_except del_pipe (\<lambda>e. exn_class_of e = UnboundLocalError) (\<lambda>e. skip))
        empty_cache"

definition generate_video :: "env \<Rightarrow> string option \<Rightarrow> (gen_result, unit) prog" where
  "generate_video env init_image =
     sq (set_stop False)
    (sq (modify (\<lambda>w. w\<lparr>video_pipe := None\<rparr>))
    (bnd (path_exists video_model_path) (\<lambda>ex.
     sq (ifthen (\<not> ex) (block
           [makedirs env 710 video_model_path True,
            fetch env 711 ''https://huggingface.co/vdo/stable-video-diffusion-img2vid-xt-1-1''
              video_model_path]))
        (try_finally 715 (video_body env) video_cleanup))))"

section \<open>The extras dispatcher (appRU.py, lines 750-776)\<close>

definition msg_enable_upscale :: string where
  "msg_enable_upscale = ''Please enable upscale to generate an image!''"

text \<open>The function starts by reading the stop flag (line 752); it does not assign it.\<close>

definition generate_image_extras :: "env \<Rightarrow> string option \<Rightarrow> bool \<Rightarrow> (gen_result, unit) prog" where
  "generate_image_extras env image_path enable_upscale =
     bnd (check_stop env 752) (\<lambda>stop.
     if stop then ret (None, Some msg_stopped)
     else if \<not> enable_upscale then ret (None, Some msg_enable_upscale)
     else if \<not> truthy_str image_path then ret (None, Some msg_no_init_image)
     else
       bnd (load_upscale_model env 2) (\<lambda>upscaler.
       if truthy upscaler then
         sq (block [ext env 764, call_obj env 765 upscaler])
        (sq (makedirs env 769 (output_dir ''StableDiffusion'' (now env 767)) True)
        (sq (write_file env 772
               (output_path ''StableDiffusion'' ''extras'' ''.png'' (now env 767) (now env 770)))
            (ret (Some (output_path ''StableDiffusion'' ''extras'' ''.png''
                          (now env 767) (now env 770)), None))))
       else ret (None, Some ''Failed to load upscale model'')))"

text \<open>\<^verbatim>\<open>stop_all_processes\<close> (lines 892-894), the handler of every stop button.\<close>

definition stop_all_processes :: "world \<Rightarrow> world" where
  "stop_all_processes w = w\<lparr>stop_signal := True\<rparr>"

section \<open>The chat dispatcher (appRU.py, lines 220-386)\<close>

record chat_args =
  c_input_text :: "string option"
  c_input_audio :: "string option"
  c_llm_model_name :: "string option"
  c_llm_model_type :: string
  c_avatar_name :: "string option"
  c_enable_tts :: bool
  c_speaker_wav :: "string option"
  c_language :: "string option"

type_synonym history = "(string option \<times> string option) list"

text \<open>
  The function returns a 5-tuple, and a 4-tuple from the two stop checks after the text
  generation (lines 295 and 330). The first component is the list \<^verbatim>\<open>chat_history\<close>.
\<close>

datatype chat_result =
    Chat5 history "string option" "string option" "string option" "string option"
  | Chat4 history "string option" "string option" "string option"

definition ret_chat5 ::
  "string option \<Rightarrow> string option \<Rightarrow> string option \<Rightarrow> string option \<Rightarrow> (chat_result, 'a) prog" where
  "ret_chat5 audio_path avatar_path dir msg =
     bnd (gets chat_history) (\<lambda>h. ret (Chat5 h audio_path avatar_path dir msg))"

definition ret_chat4 :: "(chat_result, 'a) prog" where
  "ret_chat4 = bnd (gets chat_history) (\<lambda>h. ret (Chat4 h None None None))"

definition msg_enter_request :: string where
  "msg_enter_request = ''Please, enter your request!''"

definition msg_no_llm :: string where
  "msg_no_llm = ''Please, select a LLM model!''"

definition msg_no_voice :: string where
  "msg_no_voice = ''Please, select a voice and language for TTS!''"

text \<open>
  The instruction put before the prompt (lines 258-262, 303-307): one text when the
  detected language is "en", another one otherwise.
\<close>

datatype preamble = Preamble_en | Preamble_default

definition bot_instruction :: "env \<Rightarrow> string option \<Rightarrow> preamble" where
  "bot_instruction env prompt =
     (if detect_lang env prompt = ''en'' then Preamble_en else Preamble_default)"

text \<open>Lines 256-334: the text generation. Its value is the local \<^verbatim>\<open>text\<close>.\<close>

definition chat_generate ::
  "env \<Rightarrow> chat_args \<Rightarrow> string option \<Rightarrow> pyval \<Rightarrow> pyval \<Rightarrow> (chat_result, string option) prog" where
  "chat_generate env a prompt tokenizer llm_model =
     (if truthy llm_model then
        if c_llm_model_type a = ''transformers'' then
          sq (block [ext env 258, method_call env 263 tokenizer ''encode'', ext env 265,
                     method_call env 270 llm_model ''generate'', ext env 289])
         (bnd (check_stop env 293) (\<lambda>stop.
          if stop then sq (hist_append (prompt, Some msg_stopped)) ret_chat4
          else sq (block [ext env 299, method_call env 300 tokenizer ''decode''])
                  (norm (Some (llm_text env)))))
        else if c_llm_model_type a = ''llama'' then
          sq (block [ext env 303, call_obj env 314 llm_model])
         (bnd (check_stop env 328) (\<lambda>stop.
          if stop then sq (hist_append (prompt, Some msg_stopped)) ret_chat4
          else sq (ext env 334) (norm (Some (llm_text env)))))
        else norm None
      else norm None)"

definition chat_dir_of :: "env \<Rightarrow> string" where
  "chat_dir_of env = path_join ''outputs'' (''LLM_'' @ strftime_YmdHMS (now env 337))"

definition tts_audio_path :: "env \<Rightarrow> string option \<Rightarrow> string" where
  "tts_audio_path env dir =
     path_join (path_join (fmt dir) ''audio'') (''TTS_'' @ strftime_YmdHMS (now env 370) @ ''.wav'')"

text \<open>
  Lines 243-373, the body of the \<^verbatim>\<open>try\<close>. Its value is the triple of the locals
  \<^verbatim>\<open>text\<close>, \<^verbatim>\<open>audio_path\<close> and \<^verbatim>\<open>avatar_path\<close>, which the code after the \<^verbatim>\<open>finally\<close> clause reads.
  \<^verbatim>\<open>enable_text_splitting\<close> is the constant \<^verbatim>\<open>False\<close> (line 352), so only lines 367-373 run.
\<close>

definition chat_body ::
  "env \<Rightarrow> chat_args \<Rightarrow> string option \<Rightarrow> pyval \<Rightarrow> pyval \<Rightarrow>
     (chat_result, string option \<times> string option \<times> string option) prog" where
  "chat_body env a prompt tokenizer llm_model =
     sq (ifthen (c_enable_tts a)
          (sq (bnd (get_global tts_model ''tts_model'') (\<lambda>v.
               ifthen (\<not> truthy v)
                 (bnd (load_tts_model env) (\<lambda>m. modify (\<lambda>w. w\<lparr>tts_model := Some m\<rparr>)))))
          (sq (ifthen (\<not> truthy_str (c_speaker_wav a) \<or> \<not> truthy_str (c_language a))
                 (sq (hist_append (None, Some msg_no_voice)) (ret_chat5 None None None None)))
              (bnd (get_global tts_model ''tts_model'') (\<lambda>v. method_call env 250 v ''to'')))))
    (sq (ifthen (truthy_str (c_input_audio a))
          (sq (bnd (get_global whisper_model ''whisper_model'') (\<lambda>v.
               ifthen (\<not> truthy v)
                 (bnd (load_whisper_model env) (\<lambda>m. modify (\<lambda>w. w\<lparr>whisper_model := Some m\<rparr>)))))
              (bnd (get_global whisper_model ''whisper_model'') (\<lambda>v.
               method_call env 255 v ''to''))))
    (bnd (chat_generate env a prompt tokenizer llm_model) (\<lambda>text.
     sq (bnd (gets chat_dir) (\<lambda>d.
         ifthen (\<not> truthy_str d)
           (sq (modify (\<lambda>w. w\<lparr>chat_dir := Some (chat_dir_of env)\<rparr>))
               (block [makedirs env 339 (chat_dir_of env) False,
                       makedirs env 340 (path_join (chat_dir_of env) ''text'') False,
                       makedirs env 341 (path_join (chat_dir_of env) ''audio'') False]))))
    (bnd (gets chat_dir) (\<lambda>d.
     sq (write_file env 343 (path_join (path_join (fmt d) ''text'') ''chat_history.txt''))
       (if c_enable_tts a \<and> truthy_str text then
          bnd (check_stop env 349) (\<lambda>stop.
          if stop then
            sq (hist_append (prompt, text))
               (ret_chat5 None
                  (if truthy_str (c_avatar_name a)
                   then Some (''inputs/image/avatars/'' @ fmt (c_avatar_name a)) else None)
                  d (Some msg_stopped))
          else
            bnd (get_global tts_model ''tts_model'') (\<lambda>v.
            sq (method_call env 367 v ''tts'')
           (sq (write_file env 373 (tts_audio_path env d))
               (norm (text, Some (tts_audio_path env d),
                  (if truthy_str (c_avatar_name a)
                   then Some (''inputs/image/avatars/'' @ fmt (c_avatar_name a))
                   else None))))))
        else
          norm (text, None,
            (if truthy_str (c_avatar_name a)
             then Some (''inputs/image/avatars/'' @ fmt (c_avatar_name a)) else None))))))))"

text \<open>\<^verbatim>\<open>del\<close> of a global name unbinds it.\<close>

definition del_tts_model :: "(chat_result, unit) prog" where
  "del_tts_model =
     bnd (get_global tts_model ''tts_model'') (\<lambda>v.
     ifthen (v \<noteq> PyNone)
       (modify (\<lambda>w. w\<lparr>tts_model := None, trace := trace w @ [Released v]\<rparr>)))"

definition del_whisper_model :: "(chat_result, unit) prog" where
  "del_whisper_model =
     bnd (get_global whisper_model ''whisper_model'') (\<lambda>v.
     ifthen (v \<noteq> PyNone)
       (modify (\<lambda>w. w\<lparr>whisper_model := None, trace := trace w @ [Released v]\<rparr>)))"

text \<open>Lines 374-383, the \<^verbatim>\<open>finally\<close> clause.\<close>

definition chat_cleanup :: "pyval \<Rightarrow> pyval \<Rightarrow> (chat_result, unit) prog" where
  "chat_cleanup tokenizer llm_model =
     block
       [ifthen (tokenizer \<noteq> PyNone) (del_local tokenizer),
        ifthen (llm_model \<noteq> PyNone) (del_local llm_model),
        del_tts_model,
        del_whisper_model,
        empty_cache]"

definition generate_text_and_speech :: "env \<Rightarrow> chat_args \<Rightarrow> (chat_result, unit) prog" where
  "generate_text_and_speech env a =
     sq (set_stop False)
    (sq (ifthen (\<not> truthy_str (c_input_text a) \<and> \<not> truthy_str (c_input_audio a))
          (sq (hist_append (Some msg_enter_request, None)) (ret_chat5 None None None None)))
    (bnd (if truthy_str (c_input_audio a)
          then bnd (transcribe_audio env (fmt (c_input_audio a))) (\<lambda>t. norm (Some t))
          else norm (c_input_text a)) (\<lambda>prompt.
     sq (ifthen (\<not> truthy_str (c_llm_model_name a))
          (sq (hist_append (None, Some msg_no_llm)) (ret_chat5 None None None None)))
    (bnd (load_model env (c_llm_model_name a) (c_llm_model_type a)) (\<lambda>loaded.
     sq (ifthen (truthy_str (snd (snd loaded)))
          (sq (hist_append (None, snd (snd loaded))) (ret_chat5 None None None None)))
    (sq (modify (\<lambda>w. w\<lparr>tts_model := Some PyNone, whisper_model := Some PyNone\<rparr>))
    (bnd (try_finally 242
            (chat_body env a prompt (fst loaded) (fst (snd loaded)))
            (chat_cleanup (fst loaded) (fst (snd loaded)))) (\<lambda>locals.
     sq (hist_append (prompt, fst locals))
    (bnd (gets chat_dir) (\<lambda>d.
     ret_chat5 (fst (snd locals)) (snd (snd locals)) d None))))))))))"

section \<open>A concrete environment and the state of a fresh process\<close>

text \<open>
  The module as loaded (lines 44-47, 215, 217), with an empty disk and an empty log; and
  an environment in which nothing raises, nobody presses stop and every clock reading is
  2024-05-17 12:30:45.
\<close>

definition world0 :: world where
  "world0 = \<lparr>stop_signal = False, chat_history = [], chat_dir = None,
     tts_model = Some PyNone, whisper_model = Some PyNone, audiocraft_model_path = None,
     video_pipe = None, fs = {}, trace = []\<rparr>"

definition clock0 :: datetime where
  "clock0 = \<lparr>year = 2024, month = 5, day = 17, hour = 12, minute = 30, second = 45\<rparr>"

definition env0 :: env where
  "env0 = \<lparr>cuda_available = True, xformers_available = False, raises = (\<lambda>line. None),
     stop_pressed = (\<lambda>line. False), now = (\<lambda>line. clock0), transcription = ''hello'',
     detect_lang = (\<lambda>p. ''en''), llm_text = ''Hi''\<rparr>"

text \<open>Two audio requests, one after the other, for two different models.\<close>

definition audio_call_1 :: audio_args where
  "audio_call_1 = \<lparr>au_prompt = ''rain'', au_input_audio = None,
     au_model_name = Some ''musicgen-stereo-medium'', au_model_type = ''musicgen'',
     au_enable_multiband = False\<rparr>"

definition audio_call_2 :: audio_args where
  "audio_call_2 = \<lparr>au_prompt = ''rain'', au_input_audio = None,
     au_model_name = Some ''audiogen-medium'', au_model_type = ''audiogen'',
     au_enable_multiband = False\<rparr>"

definition world_after_audio_1 :: world where
  "world_after_audio_1 = snd (generate_audio env0 audio_call_1 world0)"

text \<open>A request for the unsupported model type with no model selected.\<close>

definition audio_call_magnet :: audio_args where
  "audio_call_magnet = \<lparr>au_prompt = ''rain'', au_input_audio = None,
     au_model_name = None, au_model_type = ''magnet'', au_enable_multiband = False\<rparr>"

section \<open>Assertions about a run\<close>

text \<open>
  \<open>post P m N R E\<close>: from every world that satisfies \<open>P\<close>, the statement \<open>m\<close> ends in a
  world that satisfies \<open>N\<close> when control goes on, \<open>R\<close> when the function returns, and
  \<open>E\<close> when an exception unwinds.
\<close>

definition post ::
  "(world \<Rightarrow> bool) \<Rightarrow> ('r, 'a) prog \<Rightarrow> ('a \<Rightarrow> world \<Rightarrow> bool) \<Rightarrow> ('r \<Rightarrow> world \<Rightarrow> bool) \<Rightarrow>
     (exn \<Rightarrow> world \<Rightarrow> bool) \<Rightarrow> bool" where
  "post P m N R E \<longleftrightarrow> (\<forall>w. P w \<longrightarrow> (case m w of
       (Norm a, w') \<Rightarrow> N a w'
     | (Ret r, w') \<Rightarrow> R r w'
     | (Exc e, w') \<Rightarrow> E e w'))"

definition hist_is :: "history \<Rightarrow> world \<Rightarrow> bool" where
  "hist_is H w \<longleftrightarrow> chat_history w = H"

definition hist_grown :: "history \<Rightarrow> world \<Rightarrow> bool" where
  "hist_grown H w \<longleftrightarrow> (\<exists>e. chat_history w = H @ [e])"

text \<open>A typed chat request to a transformers model, without speech.\<close>

definition chat_call_1 :: chat_args where
  "chat_call_1 = \<lparr>c_input_text = Some ''hi'', c_input_audio = None,
     c_llm_model_name = Some ''m'', c_llm_model_type = ''transformers'', c_avatar_name = None,
     c_enable_tts = False, c_speaker_wav = None, c_language = None\<rparr>"

text \<open>
  Requests to the image dispatchers for a model "sd15" that is on disk, two more chat
  requests, and environments in which the stop arrives at one source line.
\<close>

definition txt2img_call_1 :: txt2img_args where
  "txt2img_call_1 = \<lparr>t2i_prompt = ''a cat'', t2i_model_name = Some ''sd15'',
     t2i_vae_model_name = None, t2i_lora_model_names = None, t2i_model_type = ''SD'',
     t2i_enable_upscale = False, t2i_upscale_factor = ''x2''\<rparr>"

definition img2img_call_1 :: img2img_args where
  "img2img_call_1 = \<lparr>i2i_prompt = ''a cat'', i2i_init_image = Some ''in.png'',
     i2i_model_name = Some ''sd15'', i2i_vae_model_name = None, i2i_model_type = ''SD''\<rparr>"

definition inpaint_call_1 :: inpaint_args where
  "inpaint_call_1 = \<lparr>inp_prompt = ''a cat'', inp_init_image = Some ''in.png'',
     inp_mask_image = MaskStr ''mask.png'', inp_model_name = Some ''sd15'',
     inp_vae_model_name = None, inp_model_type = ''SD''\<rparr>"

definition world_sd :: world where
  "world_sd = world0\<lparr>fs := {sd_model_path ''sd15'', inpaint_model_path ''sd15''}\<rparr>"

definition chat_call_audio_no_model :: chat_args where
  "chat_call_audio_no_model = chat_call_1\<lparr>c_input_text := None, c_input_audio := Some ''q.wav'',
     c_llm_model_name := None\<rparr>"

definition chat_call_tts :: chat_args where
  "chat_call_tts = chat_call_1\<lparr>c_enable_tts := True, c_speaker_wav := Some ''v.wav'',
     c_language := Some ''en''\<rparr>"

definition env_stop_at :: "nat \<Rightarrow> env" where
  "env_stop_at line = env0\<lparr>stop_pressed := (\<lambda>l. l = line)\<rparr>"

section \<open>Where a dispatcher saves its output\<close>

text \<open>
  The six dispatchers that save a file name it the same way: a directory
  \<^verbatim>\<open>outputs/<Category>_<date>\<close> from one clock reading and a file
  \<^verbatim>\<open><subtype>_<timestamp><ext>\<close> from a second one. The two readings are taken at the
  source lines \<open>dir_line\<close> and \<open>stamp_line\<close>.
\<close>

datatype modality = Txt2img | Img2img | Inpaint | Video | Extras | Audio

fun category :: "modality \<Rightarrow> string" where
  "category Audio = ''AudioCraft''"
| "category k = ''StableDiffusion''"

fun subtype :: "modality \<Rightarrow> string" where
  "subtype Txt2img = ''txt2img''"
| "subtype Img2img = ''img2img''"
| "subtype Inpaint = ''inpaint''"
| "subtype Video = ''video''"
| "subtype Extras = ''extras''"
| "subtype Audio = ''audio''"

fun extension :: "modality \<Rightarrow> string" where
  "extension Video = ''.mp4''"
| "extension Audio = ''.wav''"
| "extension k = ''.png''"

fun dir_line :: "modality \<Rightarrow> nat" where
  "dir_line Txt2img = 479"
| "dir_line Img2img = 574"
| "dir_line Inpaint = 686"
| "dir_line Video = 733"
| "dir_line Extras = 767"
| "dir_line Audio = 799"

fun stamp_line :: "modality \<Rightarrow> nat" where
  "stamp_line Txt2img = 482"
| "stamp_line Img2img = 577"
| "stamp_line Inpaint = 689"
| "stamp_line Video = 736"
| "stamp_line Extras = 770"
| "stamp_line Audio = 864"

definition saved_path :: "modality \<Rightarrow> env \<Rightarrow> string" where
  "saved_path k env = output_path (category k) (subtype k) (extension k)
     (now env (dir_line k)) (now env (stamp_line k))"

definition same_day :: "datetime \<Rightarrow> datetime \<Rightarrow> bool" where
  "same_day a b \<longleftrightarrow> year a = year b \<and> month a = month b \<and> day a = day b"

definition same_second :: "datetime \<Rightarrow> datetime \<Rightarrow> bool" where
  "same_second a b \<longleftrightarrow> same_day a b \<and> hour a = hour b \<and> minute a = minute b \<and> second a = second b"

text \<open>What a returned pair says about the path, and the assertion that says nothing.\<close>

definition path_is :: "string \<Rightarrow> gen_result \<Rightarrow> world \<Rightarrow> bool" where
  "path_is x r w \<longleftrightarrow> (\<forall>p. fst r = Some p \<longrightarrow> p = x)"

definition anything :: "world \<Rightarrow> bool" where
  "anything w \<longleftrightarrow> True"

text \<open>A clock one second later, and the state after a first txt2img request.\<close>

definition clock1 :: datetime where
  "clock1 = clock0\<lparr>second := 46\<rparr>"

definition env1 :: env where
  "env1 = env0\<lparr>now := (\<lambda>line. clock1)\<rparr>"

definition world_after_txt2img_1 :: world where
  "world_after_txt2img_1 = snd (generate_image_txt2img env0 txt2img_call_1 world_sd)"

section \<open>What a call releases and clears\<close>

text \<open>The events a call adds to the log: what the log holds beyond the log at the start.\<close>

definition new_events :: "world \<Rightarrow> world \<Rightarrow> event list" where
  "new_events w w' = drop (length (trace w)) (trace w')"

text \<open>
  The events of loading, calling, downloading and writing; the other three are entering a
  \<^verbatim>\<open>try\<close> statement, a \<^verbatim>\<open>del\<close> and the clearing of the cache.
\<close>

fun plain :: "event \<Rightarrow> bool" where
  "plain (Called l) = True"
| "plain (Loaded k p) = True"
| "plain (DirMade p) = True"
| "plain (Fetched u p) = True"
| "plain (FileWritten p) = True"
| "plain (EnterTry l) = False"
| "plain (Released v) = False"
| "plain CacheCleared = False"

text \<open>
  What a call leaves behind, with \<open>L\<close> the line of its \<^verbatim>\<open>try\<close> statement: when it entered the
  statement, the last thing it did was to clear the cache; when it did not, it released
  nothing and cleared nothing.
\<close>

definition settled :: "nat \<Rightarrow> event list \<Rightarrow> bool" where
  "settled L new =
     (if EnterTry L \<in> set new then new \<noteq> [] \<and> last new = CacheCleared
      else list_all plain new)"

text \<open>
  Assertions about the events since a log \<open>t0\<close>, and the properties of an event list the
  proofs go through: the \<^verbatim>\<open>try\<close> statement was entered; it was entered and the cache cleared
  last. A property is \<open>closed\<close> when plain events keep it.
\<close>

definition since :: "event list \<Rightarrow> (event list \<Rightarrow> bool) \<Rightarrow> world \<Rightarrow> bool" where
  "since t0 P w \<longleftrightarrow> (\<exists>new. trace w = t0 @ new \<and> P new)"

definition entered :: "nat \<Rightarrow> event list \<Rightarrow> bool" where
  "entered L new \<longleftrightarrow> EnterTry L \<in> set new"

definition cleaned :: "nat \<Rightarrow> event list \<Rightarrow> bool" where
  "cleaned L new \<longleftrightarrow> EnterTry L \<in> set new \<and> new \<noteq> [] \<and> last new = CacheCleared"

definition closed :: "(event list \<Rightarrow> bool) \<Rightarrow> bool" where
  "closed P \<longleftrightarrow> (\<forall>new ev. P new \<longrightarrow> plain ev \<longrightarrow> P (new @ [ev]))"

text \<open>Inside the \<^verbatim>\<open>try\<close> statement of the chat dispatcher both model globals are bound.\<close>

definition bound_in :: "event list \<Rightarrow> nat \<Rightarrow> world \<Rightarrow> bool" where
  "bound_in t0 L w \<longleftrightarrow>
     since t0 (entered L) w \<and> tts_model w \<noteq> None \<and> whisper_model w \<noteq> None"

text \<open>Just before that statement: nothing released yet, and both globals bound (line 240).\<close>

definition ready :: "event list \<Rightarrow> world \<Rightarrow> bool" where
  "ready t0 w \<longleftrightarrow>
     since t0 (list_all plain) w \<and> tts_model w \<noteq> None \<and> whisper_model w \<noteq> None"

text \<open>
  A txt2img request with one LoRA file, and an environment in which the external call of
  one source line raises.
\<close>

definition txt2img_call_lora :: txt2img_args where
  "txt2img_call_lora = txt2img_call_1\<lparr>t2i_lora_model_names := Some [''style.safetensors'']\<rparr>"

definition env_raise_at :: "nat \<Rightarrow> exn \<Rightarrow> env" where
  "env_raise_at line e = env0\<lparr>raises := (\<lambda>l. if l = line then Some e else None)\<rparr>"

(*DEFS_END*)

section \<open>Properties of the mask binarization\<close>

lemma binarize_pixel_cases:
  "astype_uint8 (np_where_lt_255 v) = (if v = 255 then 255 else 0)"
proof (cases "v = 255")
  case True
  then show ?thesis by (simp add: astype_uint8_def np_where_lt_255_def)
next
  case False
  have "(255 :: 8 word) = - 1" by simp
  then have "v \<le> 255" by (simp only: word_order.extremum)
  with False have "v < 255" by simp
  with False show ?thesis by (simp add: astype_uint8_def np_where_lt_255_def)
qed

lemma binarize_mask_nth:
  "i < length m \<Longrightarrow> j < length (m ! i) \<Longrightarrow>
     binarize_mask m ! i ! j = (if m ! i ! j = 255 then 255 else 0)"
  by (simp add: binarize_mask_def binarize_pixel_cases)

lemma binarize_mask_shape:
  "length (binarize_mask m) = length m"
  "i < length m \<Longrightarrow> length (binarize_mask m ! i) = length (m ! i)"
  by (simp_all add: binarize_mask_def)

lemma derived_mask_nth:
  "i < snd sz \<Longrightarrow> j < fst sz \<Longrightarrow>
     derived_mask src_row src_col sz m ! i ! j = binarize_mask m ! src_row i ! src_col j"
  by (simp add: derived_mask_def resize_nearest_def)

text \<open>
  C8. The binarized mask has the shape of the grayscale input, each of its pixels is 0 or
  255, and a pixel is 255 exactly where the input pixel is 255. The mask handed to the
  pipeline (after the nearest-neighbour resize) still holds only 0 and 255, whenever the
  resize reads inside the image.
\<close>

theorem mask_binarization:
  "length (binarize_mask m) = length m \<and>
   (\<forall>i<length m. length (binarize_mask m ! i) = length (m ! i) \<and>
      (\<forall>j<length (m ! i).
         (binarize_mask m ! i ! j = 0 \<or> binarize_mask m ! i ! j = 255) \<and>
         (binarize_mask m ! i ! j = 255 \<longleftrightarrow> m ! i ! j = 255))) \<and>
   ((\<forall>i < snd sz. src_row i < length m \<and> (\<forall>j < fst sz. src_col j < length (m ! src_row i)))
      \<longrightarrow> (\<forall>i < snd sz. \<forall>j < fst sz.
             derived_mask src_row src_col sz m ! i ! j = 0 \<or>
             derived_mask src_row src_col sz m ! i ! j = 255))"
  by (simp add: binarize_mask_shape binarize_mask_nth derived_mask_nth)

theorem mask_binarization_witness:
  "binarize_mask [[0, 128, 254, 255]] = [[0, 0, 0, 255]] \<and>
   set (concat (binarize_mask [[0, 128, 254, 255]])) = {0, 255} \<and>
   binarize_mask [[0, 128, 254, 255]] ! 0 ! 3 = 255 \<and>
   binarize_mask [[0, 128, 254, 255]] ! 0 ! 2 \<noteq> 255 \<and>
   derived_mask (\<lambda>i. 0) (\<lambda>j. j div 2) (8, 1) [[0, 128, 254, 255]] ! 0 ! 7 = 255 \<and>
   derived_mask (\<lambda>i. 0) (\<lambda>j. j div 2) (8, 1) [[0, 128, 254, 255]] ! 0 ! 5 = 0"
proof -
  have shape: "\<forall>i < snd (8::nat, 1::nat). (\<lambda>i. 0::nat) i < length [[0, 128, 254, 255 :: 8 word]] \<and>
      (\<forall>j < fst (8::nat, 1::nat). (\<lambda>j. j div 2) j < length ([[0, 128, 254, 255 :: 8 word]] ! (\<lambda>i. 0) i))"
    by auto
  have eval: "binarize_mask [[0, 128, 254, 255]] = [[0, 0, 0, 255]]"
    by (simp add: binarize_mask_def binarize_pixel_cases)
  have d7: "derived_mask (\<lambda>i. 0) (\<lambda>j. j div 2) (8, 1) [[0, 128, 254, 255]] ! 0 ! 7 = 255"
    by (simp add: derived_mask_nth eval)
  have d5: "derived_mask (\<lambda>i. 0) (\<lambda>j. j div 2) (8, 1) [[0, 128, 254, 255]] ! 0 ! 5 = 0"
    by (simp add: derived_mask_nth eval)
  show ?thesis
    using mask_binarization [of "[[0, 128, 254, 255]]" "(8, 1)" "\<lambda>i. 0" "\<lambda>j. j div 2"]
      shape eval d7 d5
    by simp
qed

section \<open>Unfolding the control operators\<close>

lemmas prog_defs = norm_def ret_def raise_def bnd_def sq_def skip_def ifthen_def log_def
  try_finally_def try_except_def callf_def ext_def check_stop_def set_stop_def path_exists_def
  makedirs_def fetch_def write_file_def load_ext_def method_call_def call_obj_def del_local_def
  empty_cache_def gets_def modify_def get_global_def hist_append_def

lemmas audio_defs = generate_audio_def audio_load_model_def audio_body_def audio_cleanup_def
  audio_dir_of_def load_audiocraft_model_def audiocraft_path_of_def audiocraft_repo_def

lemmas conc_defs = env0_def world0_def clock0_def truthy_str_def fmt_def path_join_def
  strftime_Ymd_def strftime_YmdHMS_def year_str_def pad2_def pad4_def digit_def msg_stopped_def

section \<open>The audio dispatcher and the unsupported model type\<close>

text \<open>
  C2, as the code has it. A request for the model type "magnet" loads nothing and writes
  nothing: it resets the stop flag and returns \<^verbatim>\<open>(None, message)\<close>. The message is the
  one about the unsupported type only when a model is selected and multiband diffusion is
  off; the check for a missing model and the check for multiband diffusion come first.
\<close>

theorem audio_magnet_result:
  "au_model_type a = ''magnet'' \<Longrightarrow>
   generate_audio env a w =
     (Ret (None, Some (if \<not> truthy_str (au_model_name a) then msg_no_audiocraft_model
                       else if au_enable_multiband a then msg_multiband
                       else msg_magnet)),
      w\<lparr>stop_signal := False\<rparr>)"
  by (simp add: generate_audio_def sq_def bnd_def set_stop_def ret_def truthy_str_def
      split: option.splits)

theorem audio_magnet_result_witness:
  "generate_audio env0
     (audio_call_magnet\<lparr>au_model_name := Some ''magnet-medium-10sec''\<rparr>) world0 =
     (Ret (None, Some msg_magnet), world0)"
  using audio_magnet_result [of "audio_call_magnet\<lparr>au_model_name := Some ''magnet-medium-10sec''\<rparr>"
      env0 world0]
  by (simp add: audio_call_magnet_def truthy_str_def world0_def)

theorem audio_magnet_counterexample:
  "fst (generate_audio env0 audio_call_magnet world0) = Ret (None, Some msg_no_audiocraft_model)
   \<and> au_model_type audio_call_magnet = ''magnet''
   \<and> msg_no_audiocraft_model \<noteq> msg_magnet"
  by (simp add: generate_audio_def sq_def bnd_def set_stop_def ret_def audio_call_magnet_def
      msg_no_audiocraft_model_def msg_magnet_def)

section \<open>The audio dispatcher called twice\<close>

lemma world_after_audio_1_eq:
  "world_after_audio_1 = \<lparr>stop_signal = False, chat_history = [], chat_dir = None,
     tts_model = Some PyNone, whisper_model = Some PyNone,
     audiocraft_model_path = Some ''inputs/audio/audiocraft/musicgen-stereo-medium'',
     video_pipe = None,
     fs = {''outputs/AudioCraft_20240517/audio_20240517_123045.wav'',
           ''outputs/AudioCraft_20240517'',
           ''inputs/audio/audiocraft/musicgen-stereo-medium''},
     trace =
       [Called 136, DirMade ''inputs/audio/audiocraft/musicgen-stereo-medium'',
        Called 138,
        Fetched ''https://huggingface.co/facebook/musicgen-stereo-medium''
          ''inputs/audio/audiocraft/musicgen-stereo-medium'',
        Called 801, DirMade ''outputs/AudioCraft_20240517'', Called 805,
        Loaded MusicGen_Model ''inputs/audio/audiocraft/musicgen-stereo-medium'',
        Called 806, EnterTry 823, Called 838, Called 840, Called 866,
        FileWritten ''outputs/AudioCraft_20240517/audio_20240517_123045.wav'',
        Released (PyModel MusicGen_Model ''inputs/audio/audiocraft/musicgen-stereo-medium''),
        CacheCleared]\<rparr>"
  by (simp add: world_after_audio_1_def audio_defs audio_call_1_def conc_defs prog_defs)

text \<open>
  C5 at a concrete input. After a request for "musicgen-stereo-medium", a request for
  "audiogen-medium" builds its model from the path of the first request: the global
  \<^verbatim>\<open>audiocraft_model_path\<close> is only assigned while it is empty (line 796), so the loader is
  not called again and the second model name is never read.
\<close>

theorem audio_second_call_loads_first_model:
  "fst (generate_audio env0 audio_call_2 world_after_audio_1) =
     Ret (Some ''outputs/AudioCraft_20240517/audio_20240517_123045.wav'', None)
   \<and> drop (length (trace world_after_audio_1))
        (trace (snd (generate_audio env0 audio_call_2 world_after_audio_1))) =
       [Called 801, Called 808,
        Loaded AudioGen_Model ''inputs/audio/audiocraft/musicgen-stereo-medium'',
        Called 809, EnterTry 823, Called 838, Called 840, Called 866,
        FileWritten ''outputs/AudioCraft_20240517/audio_20240517_123045.wav'',
        Released (PyModel AudioGen_Model ''inputs/audio/audiocraft/musicgen-stereo-medium''),
        CacheCleared]
   \<and> audiocraft_path_of ''audiogen-medium'' = ''inputs/audio/audiocraft/audiogen-medium''"
  by (simp add: world_after_audio_1_eq audio_defs audio_call_2_def conc_defs prog_defs)

section \<open>Rules for assertions, following the structure of a statement\<close>

named_theorems post_intros

lemma postI:
  "(\<And>w r w'. P w \<Longrightarrow> m w = (r, w') \<Longrightarrow>
      (case r of Norm a \<Rightarrow> N a w' | Ret x \<Rightarrow> R x w' | Exc e \<Rightarrow> E e w')) \<Longrightarrow> post P m N R E"
  unfolding post_def
proof (intro allI impI)
  fix w
  assume h: "\<And>w r w'. P w \<Longrightarrow> m w = (r, w') \<Longrightarrow>
      (case r of Norm a \<Rightarrow> N a w' | Ret x \<Rightarrow> R x w' | Exc e \<Rightarrow> E e w')" and p: "P w"
  obtain r w' where mw: "m w = (r, w')" by (cases "m w")
  from h [OF p mw] show "case m w of (Norm a, w') \<Rightarrow> N a w' | (Ret r, w') \<Rightarrow> R r w'
     | (Exc e, w') \<Rightarrow> E e w'"
    by (simp add: mw split: res.splits)
qed

lemma postD:
  "post P m N R E \<Longrightarrow> P w \<Longrightarrow> m w = (r, w') \<Longrightarrow>
     (case r of Norm a \<Rightarrow> N a w' | Ret x \<Rightarrow> R x w' | Exc e \<Rightarrow> E e w')"
  unfolding post_def by (auto split: res.splits)

lemma post_bnd [post_intros]:
  assumes m: "post I m (\<lambda>_. I) R E" and f: "\<And>a. post I (f a) N R E"
  shows "post I (bnd m f) N R E"
proof (rule postI)
  fix w r w'
  assume p: "I w" and run: "bnd m f w = (r, w')"
  obtain r1 w1 where mw: "m w = (r1, w1)" by (cases "m w")
  show "case r of Norm a \<Rightarrow> N a w' | Ret x \<Rightarrow> R x w' | Exc e \<Rightarrow> E e w'"
  proof (cases r1)
    case (Norm a)
    with postD [OF m p mw] have "I w1" by simp
    moreover from run mw Norm have "f a w1 = (r, w')" by (simp add: bnd_def)
    ultimately show ?thesis using postD [OF f] by blast
  next
    case (Ret x)
    with run mw have "r = Ret x" "w' = w1" by (simp_all add: bnd_def)
    with postD [OF m p mw] Ret show ?thesis by simp
  next
    case (Exc e)
    with run mw have "r = Exc e" "w' = w1" by (simp_all add: bnd_def)
    with postD [OF m p mw] Exc show ?thesis by simp
  qed
qed

lemma post_sq [post_intros]:
  "post I m (\<lambda>_. I) R E \<Longrightarrow> post I n N R E \<Longrightarrow> post I (sq m n) N R E"
  by (simp add: sq_def post_bnd)

lemma post_if [post_intros]:
  "(c \<Longrightarrow> post I m N R E) \<Longrightarrow> (\<not> c \<Longrightarrow> post I n N R E) \<Longrightarrow> post I (if c then m else n) N R E"
  by simp

lemma post_skip [post_intros]: "(\<And>w. I w \<Longrightarrow> N () w) \<Longrightarrow> post I skip N R E"
  by (simp add: post_def skip_def norm_def)

lemma post_norm [post_intros]: "(\<And>w. I w \<Longrightarrow> N a w) \<Longrightarrow> post I (norm a) N R E"
  by (simp add: post_def norm_def)

lemma post_ret [post_intros]: "(\<And>w. I w \<Longrightarrow> R r w) \<Longrightarrow> post I (ret r) N R E"
  by (simp add: post_def ret_def)

lemma post_raise [post_intros]: "(\<And>w. I w \<Longrightarrow> E e w) \<Longrightarrow> post I (raise e) N R E"
  by (simp add: post_def raise_def)

lemma post_ifthen [post_intros]:
  "(c \<Longrightarrow> post I m N R E) \<Longrightarrow> (\<not> c \<Longrightarrow> (\<And>w. I w \<Longrightarrow> N () w)) \<Longrightarrow> post I (ifthen c m) N R E"
  by (auto simp: ifthen_def post_def skip_def norm_def)

lemma post_block_nil [post_intros]: "(\<And>w. I w \<Longrightarrow> N () w) \<Longrightarrow> post I (block []) N R E"
  by (simp add: post_skip)

lemma post_block_cons [post_intros]:
  "post I m (\<lambda>_. I) R E \<Longrightarrow> post I (block ms) N R E \<Longrightarrow> post I (block (m # ms)) N R E"
  by (simp add: post_sq)

lemma post_for_each [post_intros]:
  "(\<And>x. post I (f x) (\<lambda>_. I) R E) \<Longrightarrow> post I (for_each f xs) (\<lambda>_. I) R E"
  by (induction xs) (simp_all add: post_sq post_skip)

lemma post_case_option [post_intros]:
  "(x = None \<Longrightarrow> post I m N R E) \<Longrightarrow> (\<And>y. x = Some y \<Longrightarrow> post I (f y) N R E) \<Longrightarrow>
   post I (case x of None \<Rightarrow> m | Some y \<Rightarrow> f y) N R E"
  by (cases x) simp_all

lemma post_callf [post_intros]:
  fixes R :: "'r \<Rightarrow> world \<Rightarrow> bool" and body :: "('a, 'a) prog"
  assumes b: "post I body N N E"
  shows "post I (callf body) N R E"
proof (rule postI)
  fix w w' and r :: "('r, 'a) res"
  assume p: "I w" and run: "callf body w = (r, w')"
  obtain r1 w1 where bw: "body w = (r1, w1)" by (cases "body w")
  from run bw postD [OF b p bw]
  show "case r of Norm a \<Rightarrow> N a w' | Ret x \<Rightarrow> R x w' | Exc e \<Rightarrow> E e w'"
    by (cases r1) (auto simp: callf_def)
qed

lemma post_try_except [post_intros]:
  assumes m: "post I m N R (\<lambda>e w. if catches e then I w else E e w)"
    and h: "\<And>e. post I (h e) N R E"
  shows "post I (try_except m catches h) N R E"
proof (rule postI)
  fix w r w'
  assume p: "I w" and run: "try_except m catches h w = (r, w')"
  obtain r1 w1 where mw: "m w = (r1, w1)" by (cases "m w")
  show "case r of Norm a \<Rightarrow> N a w' | Ret x \<Rightarrow> R x w' | Exc e \<Rightarrow> E e w'"
  proof (cases r1)
    case (Norm a)
    with run mw postD [OF m p mw] show ?thesis by (auto simp: try_except_def)
  next
    case (Ret x)
    with run mw postD [OF m p mw] show ?thesis by (auto simp: try_except_def)
  next
    case (Exc e)
    show ?thesis
    proof (cases "catches e")
      case True
      with Exc postD [OF m p mw] have "I w1" by simp
      moreover from run mw Exc True have "h e w1 = (r, w')" by (simp add: try_except_def)
      ultimately show ?thesis using postD [OF h] by blast
    next
      case False
      with run mw Exc postD [OF m p mw] show ?thesis by (auto simp: try_except_def)
    qed
  qed
qed

lemma post_try_finally [post_intros]:
  assumes st: "\<And>w. I w \<Longrightarrow> I (w\<lparr>trace := trace w @ [EnterTry l]\<rparr>)"
    and m: "post I m N R E"
    and cn: "\<And>a. post (N a) c (\<lambda>_. N a) R E"
    and cr: "\<And>x. post (R x) c (\<lambda>_. R x) R E"
    and ce: "\<And>e. post (E e) c (\<lambda>_. E e) R E"
  shows "post I (try_finally l m c) N R E"
proof (rule postI)
  fix w r w'
  assume p: "I w" and run: "try_finally l m c w = (r, w')"
  let ?w0 = "w\<lparr>trace := trace w @ [EnterTry l]\<rparr>"
  obtain r1 w1 where mw: "m ?w0 = (r1, w1)" by (cases "m ?w0")
  obtain r2 w2 where cw: "c w1 = (r2, w2)" by (cases "c w1")
  have res: "(r, w') = (case r2 of Norm u \<Rightarrow> (r1, w2) | Ret x \<Rightarrow> (Ret x, w2) | Exc e \<Rightarrow> (Exc e, w2))"
    using run mw cw by (simp add: try_finally_def split: res.splits)
  note pm = postD [OF m st [OF p] mw]
  show "case r of Norm a \<Rightarrow> N a w' | Ret x \<Rightarrow> R x w' | Exc e \<Rightarrow> E e w'"
  proof (cases r1)
    case (Norm a)
    with pm have "N a w1" by simp
    from postD [OF cn this cw] res Norm show ?thesis by (cases r2) auto
  next
    case (Ret x)
    with pm have "R x w1" by simp
    from postD [OF cr this cw] res Ret show ?thesis by (cases r2) auto
  next
    case (Exc e)
    with pm have "E e w1" by simp
    from postD [OF ce this cw] res Exc show ?thesis by (cases r2) auto
  qed
qed


lemma post_modify [post_intros]: "(\<And>w. I w \<Longrightarrow> N () (f w)) \<Longrightarrow> post I (modify f) N R E"
  by (simp add: post_def modify_def)

lemma post_gets [post_intros]: "(\<And>w. I w \<Longrightarrow> N (f w) w) \<Longrightarrow> post I (gets f) N R E"
  by (simp add: post_def gets_def)

lemma post_path_exists [post_intros]:
  "(\<And>w. I w \<Longrightarrow> N (p \<in> fs w) w) \<Longrightarrow> post I (path_exists p) N R E"
  by (simp add: post_def path_exists_def)

lemma post_log [post_intros]:
  "(\<And>w. I w \<Longrightarrow> N () (w\<lparr>trace := trace w @ [ev]\<rparr>)) \<Longrightarrow> post I (log ev) N R E"
  by (simp add: post_def log_def)

lemma post_set_stop [post_intros]:
  "(\<And>w. I w \<Longrightarrow> N () (w\<lparr>stop_signal := b\<rparr>)) \<Longrightarrow> post I (set_stop b) N R E"
  by (simp add: post_def set_stop_def)

lemma post_check_stop [post_intros]:
  "(\<And>w. I w \<Longrightarrow> N (stop_signal w \<or> stop_pressed env l)
       (w\<lparr>stop_signal := stop_signal w \<or> stop_pressed env l\<rparr>)) \<Longrightarrow>
   post I (check_stop env l) N R E"
  by (simp add: post_def check_stop_def Let_def)

lemma post_ext [post_intros]:
  "(\<And>w. I w \<Longrightarrow> raises env l = None \<Longrightarrow>
      N () (w\<lparr>stop_signal := stop_signal w \<or> stop_pressed env l, trace := trace w @ [Called l]\<rparr>)) \<Longrightarrow>
   (\<And>w e. I w \<Longrightarrow> raises env l = Some e \<Longrightarrow>
      E e (w\<lparr>stop_signal := stop_signal w \<or> stop_pressed env l, trace := trace w @ [Called l]\<rparr>)) \<Longrightarrow>
   post I (ext env l) N R E"
  by (simp add: post_def ext_def Let_def split: option.splits)

lemma post_get_global [post_intros]:
  "(\<And>w v. I w \<Longrightarrow> f w = Some v \<Longrightarrow> N v w) \<Longrightarrow>
   (\<And>w. I w \<Longrightarrow> f w = None \<Longrightarrow>
      E (Exn NameError (''name '' @ apos @ name @ apos @ '' is not defined'')) w) \<Longrightarrow>
   post I (get_global f name) N R E"
  by (simp add: post_def get_global_def split: option.splits)

lemma post_method_call [post_intros]:
  "post I (ext env l) N R E \<Longrightarrow>
   (\<And>w. I w \<Longrightarrow> E (Exn AttributeError
      (apos @ type_name v @ apos @ '' object has no attribute '' @ apos @ name @ apos)) w) \<Longrightarrow>
   post I (method_call env l v name) N R E"
  by (cases v) (simp_all add: method_call_def post_def raise_def)

lemma post_call_obj [post_intros]:
  "post I (ext env l) N R E \<Longrightarrow>
   (\<And>w. I w \<Longrightarrow> E (Exn TypeError (apos @ type_name v @ apos @ '' object is not callable'')) w) \<Longrightarrow>
   post I (call_obj env l v) N R E"
  by (cases v) (simp_all add: call_obj_def post_def raise_def)

lemma post_case_prod [post_intros]:
  "(\<And>a b. x = (a, b) \<Longrightarrow> post I (f a b) N R E) \<Longrightarrow> post I (case x of (a, b) \<Rightarrow> f a b) N R E"
  by (cases x) simp

lemmas prim_defs = makedirs_def fetch_def write_file_def load_ext_def del_local_def
  empty_cache_def Let_def

section \<open>The chat history grows by one entry per call\<close>

lemma hist_append_then:
  assumes "post (hist_is (H @ [e])) m (\<lambda>_ _. False) (\<lambda>r. hist_is (H @ [e])) (\<lambda>_ _. False)"
  shows "post (hist_is H) (sq (hist_append e) m) N (\<lambda>r. hist_grown H) E"
proof (rule postI)
  fix w r w'
  assume p: "hist_is H w" and run: "sq (hist_append e) m w = (r, w')"
  let ?w1 = "w\<lparr>chat_history := chat_history w @ [e]\<rparr>"
  have 1: "hist_is (H @ [e]) ?w1" using p by (simp add: hist_is_def)
  have 2: "m ?w1 = (r, w')" using run by (simp add: sq_def bnd_def hist_append_def modify_def)
  from postD [OF assms 1 2]
  show "case r of Norm a \<Rightarrow> N a w' | Ret x \<Rightarrow> hist_grown H w' | Exc e \<Rightarrow> E e w'"
    by (cases r) (auto simp: hist_is_def hist_grown_def)
qed

lemmas chat_defs = generate_text_and_speech_def chat_body_def chat_generate_def chat_cleanup_def
  ret_chat5_def ret_chat4_def del_tts_model_def del_whisper_model_def

lemma load_model_hist:
  "post (hist_is H) (load_model env n t) (\<lambda>_. hist_is H) R (\<lambda>_ _. True)"
  unfolding load_model_def prim_defs
  by (intro post_intros) (simp_all add: hist_is_def)

lemma transcribe_audio_hist:
  "post (hist_is H) (transcribe_audio env p) (\<lambda>_. hist_is H) R (\<lambda>_ _. True)"
  unfolding transcribe_audio_def prim_defs
  by (intro post_intros) (simp_all add: hist_is_def)

lemma load_tts_model_hist:
  "post (hist_is H) (load_tts_model env) (\<lambda>_. hist_is H) R (\<lambda>_ _. True)"
  unfolding load_tts_model_def prim_defs
  by (intro post_intros) (simp_all add: hist_is_def)

lemma load_whisper_model_hist:
  "post (hist_is H) (load_whisper_model env) (\<lambda>_. hist_is H) R (\<lambda>_ _. True)"
  unfolding load_whisper_model_def prim_defs
  by (intro post_intros) (simp_all add: hist_is_def)

lemmas hist_loaders = load_model_hist transcribe_audio_hist load_tts_model_hist
  load_whisper_model_hist

lemma chat_cleanup_any:
  "(\<And>w w'. chat_history w' = chat_history w \<Longrightarrow> P w \<Longrightarrow> P w') \<Longrightarrow>
   post P (chat_cleanup tok llm) (\<lambda>_. P) R (\<lambda>_ _. True)"
  unfolding chat_cleanup_def del_tts_model_def del_whisper_model_def prim_defs
  by (intro post_intros) (simp_all)

lemma chat_hist:
  "post (hist_is H) (generate_text_and_speech env a) (\<lambda>_ _. False) (\<lambda>r. hist_grown H) (\<lambda>_ _. True)"
  unfolding chat_defs prim_defs
  apply (intro hist_append_then hist_loaders post_intros chat_cleanup_any)
  apply (simp_all add: hist_is_def hist_grown_def)
  done

text \<open>
  C10. Every call of the chat dispatcher that does not raise appends exactly one entry to
  \<^verbatim>\<open>chat_history\<close> and leaves the entries that were there as they were. (The assertion
  behind it also shows that the function never runs off its end: it returns or raises.)
\<close>

theorem chat_history_grows_by_one:
  assumes run: "generate_text_and_speech env a w = (out, w')" and ok: "\<forall>e. out \<noteq> Exc e"
  shows "\<exists>entry. chat_history w' = chat_history w @ [entry]"
proof -
  have "hist_is (chat_history w) w" by (simp add: hist_is_def)
  from postD [OF chat_hist this run] ok show ?thesis
    by (cases out) (auto simp: hist_grown_def)
qed

lemma chat_call_1_run:
  "fst (generate_text_and_speech env0 chat_call_1 world0) =
     Ret (Chat5 [(Some ''hi'', Some ''Hi'')] None None (Some ''outputs/LLM_20240517_123045'') None)"
  by (simp add: chat_defs load_model_def chat_dir_of_def chat_call_1_def conc_defs prog_defs
      method_call_def Let_def)

theorem chat_history_grows_by_one_witness:
  "(\<exists>entry. chat_history (snd (generate_text_and_speech env0 chat_call_1 world0)) =
      chat_history world0 @ [entry]) \<and>
   fst (generate_text_and_speech env0 chat_call_1 world0) =
     Ret (Chat5 [(Some ''hi'', Some ''Hi'')] None None (Some ''outputs/LLM_20240517_123045'') None)"
proof -
  have run: "generate_text_and_speech env0 chat_call_1 world0 =
      (fst (generate_text_and_speech env0 chat_call_1 world0),
       snd (generate_text_and_speech env0 chat_call_1 world0))" by simp
  have ok: "\<forall>e. fst (generate_text_and_speech env0 chat_call_1 world0) \<noteq> Exc e"
    by (simp add: chat_call_1_run)
  from chat_history_grows_by_one [OF run ok] chat_call_1_run show ?thesis by blast
qed

section \<open>The stop flag at the start of a call\<close>

lemma sq_set_stop: "sq (set_stop b) m w = m (w\<lparr>stop_signal := b\<rparr>)"
  by (simp add: sq_def bnd_def set_stop_def)

text \<open>
  C3 at its failing input. The extras dispatcher called after a stop returns
  "Generation stopped" at once and leaves the flag set, for every image and every
  environment: it reads the flag where the other six dispatchers assign it. For those six,
  a call made after a stop runs exactly as a call made with the flag cleared.
\<close>

theorem extras_does_not_reset_stop:
  "generate_image_extras env image_path enable_upscale (stop_all_processes w) =
     (Ret (None, Some msg_stopped), stop_all_processes w)
   \<and> generate_image_txt2img env t (stop_all_processes w) =
       generate_image_txt2img env t (w\<lparr>stop_signal := False\<rparr>)
   \<and> generate_image_img2img env i (stop_all_processes w) =
       generate_image_img2img env i (w\<lparr>stop_signal := False\<rparr>)
   \<and> generate_image_inpaint env p (stop_all_processes w) =
       generate_image_inpaint env p (w\<lparr>stop_signal := False\<rparr>)
   \<and> generate_video env v (stop_all_processes w) = generate_video env v (w\<lparr>stop_signal := False\<rparr>)
   \<and> generate_audio env a (stop_all_processes w) = generate_audio env a (w\<lparr>stop_signal := False\<rparr>)
   \<and> generate_text_and_speech env c (stop_all_processes w) =
       generate_text_and_speech env c (w\<lparr>stop_signal := False\<rparr>)"
  by (simp add: generate_image_extras_def generate_image_txt2img_def generate_image_img2img_def
      generate_image_inpaint_def generate_video_def generate_audio_def
      generate_text_and_speech_def sq_set_stop stop_all_processes_def
      bnd_def check_stop_def ret_def)

theorem extras_does_not_reset_stop_witness:
  "generate_image_extras env0 (Some ''photo.png'') True (stop_all_processes world0) =
     (Ret (None, Some msg_stopped), stop_all_processes world0)
   \<and> generate_image_inpaint env0 inpaint_call_1 (stop_all_processes world_sd) =
       generate_image_inpaint env0 inpaint_call_1 (world_sd\<lparr>stop_signal := False\<rparr>)"
  using extras_does_not_reset_stop [of env0 "Some ''photo.png''" True world0]
    extras_does_not_reset_stop [of env0 None False world_sd _ _ inpaint_call_1]
  by blast

section \<open>A call without a model selected\<close>

text \<open>
  C4 at its failing input. A chat request that carries a recording and selects no language
  model: line 228 calls \<^verbatim>\<open>transcribe_audio\<close> before line 229 tests the model name. When no stop
  arrives at line 82 and none of the calls of lines 87-94 raises, the call downloads the
  Whisper weights unless their directory is there, loads them and transcribes the
  recording, and only then appends \<^verbatim>\<open>[None, "Please, select a LLM model!"]\<close> to the history
  and returns. The same function given a typed request, and txt2img, img2img, inpaint and
  the audio dispatcher, return their message with no load and no write: they change
  nothing but the stop flag, which they clear (the chat dispatcher also appends its
  entry to the history).
\<close>

theorem chat_audio_request_loads_before_model_check:
  "(truthy_str (c_input_audio c) \<and> \<not> truthy_str (c_llm_model_name c) \<and>
      \<not> stop_pressed env 82 \<and> raises env 87 = None \<and> raises env 90 = None \<and>
      raises env 91 = None \<and> raises env 93 = None \<and> raises env 94 = None \<longrightarrow>
      fst (generate_text_and_speech env c w) =
        Ret (Chat5 (chat_history w @ [(None, Some msg_no_llm)]) None None None None)
      \<and> trace (snd (generate_text_and_speech env c w)) =
        trace w @
        (if whisper_model_path \<in> fs w then []
         else [Called 87, DirMade whisper_model_path, Called 90, Called 91,
               Fetched whisper_url (path_join whisper_model_path ''medium.pt'')]) @
        [Called 93, Loaded Whisper_Model (path_join whisper_model_path ''medium.pt''), Called 94]
      \<and> fs (snd (generate_text_and_speech env c w)) =
        (if whisper_model_path \<in> fs w then fs w
         else insert (path_join whisper_model_path ''medium.pt'')
                (insert whisper_model_path (fs w))))
   \<and> (truthy_str (c_input_text c) \<and> \<not> truthy_str (c_input_audio c) \<and>
        \<not> truthy_str (c_llm_model_name c) \<longrightarrow>
      generate_text_and_speech env c w =
        (Ret (Chat5 (chat_history w @ [(None, Some msg_no_llm)]) None None None None),
         w\<lparr>stop_signal := False, chat_history := chat_history w @ [(None, Some msg_no_llm)]\<rparr>))
   \<and> (\<not> truthy_str (t2i_model_name t) \<longrightarrow>
      generate_image_txt2img env t w = (Ret (None, Some msg_no_sd_model), w\<lparr>stop_signal := False\<rparr>))
   \<and> (\<not> truthy_str (i2i_model_name i) \<longrightarrow>
      generate_image_img2img env i w = (Ret (None, Some msg_no_sd_model), w\<lparr>stop_signal := False\<rparr>))
   \<and> (\<not> truthy_str (inp_model_name p) \<longrightarrow>
      generate_image_inpaint env p w = (Ret (None, Some msg_no_sd_model), w\<lparr>stop_signal := False\<rparr>))
   \<and> (\<not> truthy_str (au_model_name a) \<longrightarrow>
      generate_audio env a w = (Ret (None, Some msg_no_audiocraft_model), w\<lparr>stop_signal := False\<rparr>))"
  by (simp add: generate_image_txt2img_def generate_image_img2img_def
      generate_image_inpaint_def generate_audio_def generate_text_and_speech_def sq_set_stop
      transcribe_audio_def truthy_str_def ret_chat5_def prog_defs Let_def split: option.splits)

theorem chat_audio_request_loads_before_model_check_witness:
  "fst (generate_text_and_speech env0 chat_call_audio_no_model world0) =
     Ret (Chat5 [(None, Some msg_no_llm)] None None None None)
   \<and> trace (snd (generate_text_and_speech env0 chat_call_audio_no_model world0)) =
       [Called 87, DirMade ''inputs/text/whisper-medium'', Called 90, Called 91,
        Fetched whisper_url ''inputs/text/whisper-medium/medium.pt'', Called 93,
        Loaded Whisper_Model ''inputs/text/whisper-medium/medium.pt'', Called 94]
   \<and> fs (snd (generate_text_and_speech env0 chat_call_audio_no_model world0)) =
       {''inputs/text/whisper-medium/medium.pt'', ''inputs/text/whisper-medium''}
   \<and> generate_text_and_speech env0 (chat_call_1\<lparr>c_llm_model_name := None\<rparr>) world0 =
       (Ret (Chat5 [(None, Some msg_no_llm)] None None None None),
        world0\<lparr>chat_history := [(None, Some msg_no_llm)]\<rparr>)
   \<and> generate_image_txt2img env0 (txt2img_call_1\<lparr>t2i_model_name := None\<rparr>) world0 =
       (Ret (None, Some msg_no_sd_model), world0)
   \<and> generate_image_img2img env0 (img2img_call_1\<lparr>i2i_model_name := Some ''''\<rparr>) world0 =
       (Ret (None, Some msg_no_sd_model), world0)
   \<and> generate_image_inpaint env0 (inpaint_call_1\<lparr>inp_model_name := None\<rparr>) world0 =
       (Ret (None, Some msg_no_sd_model), world0)
   \<and> generate_audio env0 (audio_call_1\<lparr>au_model_name := None\<rparr>) world0 =
       (Ret (None, Some msg_no_audiocraft_model), world0)"
  using chat_audio_request_loads_before_model_check
      [of chat_call_audio_no_model env0 world0 "txt2img_call_1\<lparr>t2i_model_name := None\<rparr>"
        "img2img_call_1\<lparr>i2i_model_name := Some ''''\<rparr>" "inpaint_call_1\<lparr>inp_model_name := None\<rparr>"
        "audio_call_1\<lparr>au_model_name := None\<rparr>"]
    chat_audio_request_loads_before_model_check
      [of "chat_call_1\<lparr>c_llm_model_name := None\<rparr>" env0 world0]
  by (simp add: truthy_str_def chat_call_audio_no_model_def chat_call_1_def world0_def env0_def
      whisper_model_path_def path_join_def)

section \<open>A stop that arrives while the language model loads\<close>

text \<open>
  C7 at its failing input. A chat request with speech enabled, a voice and a language;
  the stop arrives during line 60, the load of the language model. The next checkpoint is
  the one of \<^verbatim>\<open>load_tts_model\<close> (line 100), which returns the string "Generation stopped";
  line 250 calls \<^verbatim>\<open>.to(device)\<close> on that string. The call raises \<^verbatim>\<open>AttributeError\<close>; it does
  not return, and the history gets no entry.
\<close>

theorem chat_stop_before_tts_load_raises:
  "generate_text_and_speech (env_stop_at 60) chat_call_tts world0 =
     (Exc (Exn AttributeError
        (apos @ ''str'' @ apos @ '' object has no attribute '' @ apos @ ''to'' @ apos)),
      world0\<lparr>stop_signal := True, tts_model := None,
        trace := [Called 58, Loaded Tokenizer ''inputs/text/llm_models/m'', Called 60,
          Loaded LLM_Transformers ''inputs/text/llm_models/m'', EnterTry 242,
          Released (PyModel Tokenizer ''inputs/text/llm_models/m''),
          Released (PyModel LLM_Transformers ''inputs/text/llm_models/m''),
          Released (PyStr msg_stopped), CacheCleared]\<rparr>)"
  by (simp add: chat_defs load_model_def load_tts_model_def chat_call_tts_def chat_call_1_def
      env_stop_at_def conc_defs prog_defs Let_def)

section \<open>Timestamps as text\<close>

lemma digit_eq_iff: "digit a = digit b \<longleftrightarrow> a mod 10 = b mod 10"
proof -
  have d: "distinct ''0123456789''" by simp
  have l: "a mod 10 < length ''0123456789''" "b mod 10 < length ''0123456789''" by simp_all
  show ?thesis unfolding digit_def using nth_eq_iff_index_eq [OF d l] .
qed

lemma digit_not_slash: "digit a \<noteq> CHR ''/''"
proof -
  have "a mod 10 < length ''0123456789''" by simp
  then have "digit a \<in> set ''0123456789''" unfolding digit_def by (rule nth_mem)
  then show ?thesis by auto
qed

lemma slash_not_digit: "CHR ''/'' \<noteq> digit a"
  using digit_not_slash [of a] by auto

lemma div_mod_10_eq: "(a::nat) div 10 = b div 10 \<Longrightarrow> a mod 10 = b mod 10 \<Longrightarrow> a = b"
  by (metis div_mult_mod_eq)

lemma digits1_eq:
  assumes "n < 10" "m < 10" "digit n = digit m"
  shows "n = m"
  using assms by (simp add: digit_eq_iff)

lemma digits2_eq:
  assumes "n < 100" "m < 100" "digit (n div 10) = digit (m div 10)" "digit n = digit m"
  shows "n = m"
proof -
  from assms have a: "(n div 10) mod 10 = (m div 10) mod 10" and b: "n mod 10 = m mod 10"
    by (simp_all add: digit_eq_iff)
  from assms have "n div 10 < 10" "m div 10 < 10" by simp_all
  with a have e: "n div 10 = m div 10" by simp
  from e b show "n = m" by (rule div_mod_10_eq)
qed

lemma digits3_eq:
  assumes "n < 1000" "m < 1000" "digit (n div 100) = digit (m div 100)"
    "digit (n div 10) = digit (m div 10)" "digit n = digit m"
  shows "n = m"
proof -
  from assms have a: "(n div 100) mod 10 = (m div 100) mod 10"
    and b: "(n div 10) mod 10 = (m div 10) mod 10" and c: "n mod 10 = m mod 10"
    by (simp_all add: digit_eq_iff)
  from assms have "n div 100 < 10" "m div 100 < 10" by simp_all
  with a have 1: "n div 100 = m div 100" by simp
  have "n div 10 div 10 = n div 100" "m div 10 div 10 = m div 100"
    by (simp_all add: div_mult2_eq [symmetric])
  with 1 have "n div 10 div 10 = m div 10 div 10" by simp
  from this b have "n div 10 = m div 10" by (rule div_mod_10_eq)
  from this c show "n = m" by (rule div_mod_10_eq)
qed

lemma digits4_eq:
  assumes "n < 10000" "m < 10000" "digit (n div 1000) = digit (m div 1000)"
    "digit (n div 100) = digit (m div 100)" "digit (n div 10) = digit (m div 10)"
    "digit n = digit m"
  shows "n = m"
proof -
  from assms have a: "(n div 1000) mod 10 = (m div 1000) mod 10"
    and b: "(n div 100) mod 10 = (m div 100) mod 10"
    and c: "(n div 10) mod 10 = (m div 10) mod 10"
    and d: "n mod 10 = m mod 10"
    by (simp_all add: digit_eq_iff)
  from assms have "n div 1000 < 10" "m div 1000 < 10" by simp_all
  with a have 1: "n div 1000 = m div 1000" by simp
  have "n div 100 div 10 = n div 1000" "m div 100 div 10 = m div 1000"
    by (simp_all add: div_mult2_eq [symmetric])
  with 1 have "n div 100 div 10 = m div 100 div 10" by simp
  from this b have 2: "n div 100 = m div 100" by (rule div_mod_10_eq)
  have "n div 10 div 10 = n div 100" "m div 10 div 10 = m div 100"
    by (simp_all add: div_mult2_eq [symmetric])
  with 2 have "n div 10 div 10 = m div 10 div 10" by simp
  from this c have "n div 10 = m div 10" by (rule div_mod_10_eq)
  from this d show "n = m" by (rule div_mod_10_eq)
qed

lemma pad2_eq_iff:
  assumes "n < 100" "m < 100"
  shows "pad2 n = pad2 m \<longleftrightarrow> n = m"
  using digits2_eq [OF assms] by (auto simp: pad2_def)

lemma length_pad2 [simp]: "length (pad2 n) = 2"
  by (simp add: pad2_def)

lemma length_year_str:
  "length (year_str y) = (if y < 10 then 1 else if y < 100 then 2 else if y < 1000 then 3 else 4)"
  by (simp add: year_str_def pad4_def)

lemma year_str_eq_iff:
  assumes "n < 10000" "m < 10000"
  shows "year_str n = year_str m \<longleftrightarrow> n = m"
proof
  assume eq: "year_str n = year_str m"
  then have len: "length (year_str n) = length (year_str m)" by simp
  consider "n < 10" | "10 \<le> n" "n < 100" | "100 \<le> n" "n < 1000" | "1000 \<le> n"
    by linarith
  then show "n = m"
  proof cases
    case 1
    with len have "m < 10" by (simp add: length_year_str split: if_splits)
    with 1 eq show ?thesis by (simp add: year_str_def digits1_eq)
  next
    case 2
    with len have m: "10 \<le> m" "m < 100" by (simp_all add: length_year_str split: if_splits)
    with 2 eq show ?thesis by (simp add: year_str_def digits2_eq)
  next
    case 3
    with len have m: "100 \<le> m" "m < 1000" by (simp_all add: length_year_str split: if_splits)
    with 3 eq show ?thesis by (simp add: year_str_def digits3_eq)
  next
    case 4
    with len have m: "1000 \<le> m" by (simp add: length_year_str split: if_splits)
    with 4 eq assms show ?thesis by (simp add: year_str_def pad4_def digits4_eq)
  qed
qed simp

lemma year_str_no_slash: "CHR ''/'' \<notin> set (year_str y)"
  by (simp add: year_str_def pad4_def slash_not_digit)

lemma year_str_not_Nil [simp]: "year_str y \<noteq> []"
  by (simp add: year_str_def pad4_def)

lemma strftime_Ymd_eq_iff:
  assumes "valid_datetime a" "valid_datetime b"
  shows "strftime_Ymd a = strftime_Ymd b \<longleftrightarrow> same_day a b"
proof
  assume eq: "strftime_Ymd a = strftime_Ymd b"
  from assms have r: "year a < 10000" "year b < 10000" "month a < 100" "month b < 100"
    "day a < 100" "day b < 100" by (simp_all add: valid_datetime_def)
  from eq have "length (strftime_Ymd a) = length (strftime_Ymd b)" by simp
  then have "length (year_str (year a)) = length (year_str (year b))"
    by (simp add: strftime_Ymd_def)
  with eq have "year_str (year a) = year_str (year b) \<and> pad2 (month a) = pad2 (month b)
      \<and> pad2 (day a) = pad2 (day b)"
    by (simp add: strftime_Ymd_def)
  with r show "same_day a b"
    by (simp add: same_day_def year_str_eq_iff pad2_eq_iff)
next
  assume "same_day a b"
  then show "strftime_Ymd a = strftime_Ymd b" by (simp add: strftime_Ymd_def same_day_def)
qed

lemma strftime_Ymd_no_slash: "CHR ''/'' \<notin> set (strftime_Ymd d)"
  using year_str_no_slash [of "year d"]
  by (simp add: strftime_Ymd_def pad2_def slash_not_digit)

lemma strftime_Ymd_last: "last (strftime_Ymd d) \<noteq> CHR ''/''"
  by (simp add: strftime_Ymd_def pad2_def digit_not_slash)

lemma strftime_YmdHMS_eq_iff:
  assumes "valid_datetime a" "valid_datetime b"
  shows "strftime_YmdHMS a = strftime_YmdHMS b \<longleftrightarrow> same_second a b"
proof
  assume eq: "strftime_YmdHMS a = strftime_YmdHMS b"
  from assms have r: "hour a < 100" "hour b < 100" "minute a < 100" "minute b < 100"
    "second a < 100" "second b < 100" by (simp_all add: valid_datetime_def)
  from eq have "length (strftime_YmdHMS a) = length (strftime_YmdHMS b)" by simp
  then have "length (strftime_Ymd a) = length (strftime_Ymd b)"
    by (simp add: strftime_YmdHMS_def)
  with eq have "strftime_Ymd a = strftime_Ymd b \<and> pad2 (hour a) = pad2 (hour b)
      \<and> pad2 (minute a) = pad2 (minute b) \<and> pad2 (second a) = pad2 (second b)"
    by (simp add: strftime_YmdHMS_def)
  with r show "same_second a b"
    by (simp add: same_second_def pad2_eq_iff strftime_Ymd_eq_iff [OF assms])
next
  assume "same_second a b"
  then show "strftime_YmdHMS a = strftime_YmdHMS b"
    by (simp add: strftime_YmdHMS_def strftime_Ymd_def same_second_def same_day_def)
qed

lemma split_at_slash:
  assumes "CHR ''/'' \<notin> set a" "CHR ''/'' \<notin> set b" "a @ CHR ''/'' # r = b @ CHR ''/'' # s"
  shows "a = b \<and> r = s"
proof -
  have "takeWhile (\<lambda>c. c \<noteq> CHR ''/'') (a @ CHR ''/'' # r) = a"
    using assms(1) by (auto simp: takeWhile_tail)
  moreover have "takeWhile (\<lambda>c. c \<noteq> CHR ''/'') (b @ CHR ''/'' # s) = b"
    using assms(2) by (auto simp: takeWhile_tail)
  ultimately have "a = b" using assms(3) by simp
  with assms(3) show ?thesis by simp
qed

lemma saved_path_plain:
  "saved_path k env = ''outputs/'' @ category k @ ''_'' @ strftime_Ymd (now env (dir_line k)) @
     ''/'' @ subtype k @ ''_'' @ strftime_YmdHMS (now env (stamp_line k)) @ extension k"
  using strftime_Ymd_last [of "now env (dir_line k)"]
  by (cases k) (simp_all add: saved_path_def output_path_def output_dir_def path_join_def)

lemma saved_path_eq_iff:
  assumes "valid_datetime (now env (dir_line k))" "valid_datetime (now env' (dir_line k))"
    "valid_datetime (now env (stamp_line k))" "valid_datetime (now env' (stamp_line k))"
  shows "saved_path k env = saved_path k env' \<longleftrightarrow>
         same_day (now env (dir_line k)) (now env' (dir_line k)) \<and>
         same_second (now env (stamp_line k)) (now env' (stamp_line k))"
proof
  assume "saved_path k env = saved_path k env'"
  then have "strftime_Ymd (now env (dir_line k)) @ CHR ''/'' #
        (subtype k @ ''_'' @ strftime_YmdHMS (now env (stamp_line k)) @ extension k) =
      strftime_Ymd (now env' (dir_line k)) @ CHR ''/'' #
        (subtype k @ ''_'' @ strftime_YmdHMS (now env' (stamp_line k)) @ extension k)"
    by (simp add: saved_path_plain)
  from split_at_slash [OF strftime_Ymd_no_slash strftime_Ymd_no_slash this]
  have "strftime_Ymd (now env (dir_line k)) = strftime_Ymd (now env' (dir_line k))"
    and "strftime_YmdHMS (now env (stamp_line k)) = strftime_YmdHMS (now env' (stamp_line k))"
    by simp_all
  then show "same_day (now env (dir_line k)) (now env' (dir_line k)) \<and>
         same_second (now env (stamp_line k)) (now env' (stamp_line k))"
    by (simp add: strftime_Ymd_eq_iff [OF assms(1,2)] strftime_YmdHMS_eq_iff [OF assms(3,4)])
next
  assume "same_day (now env (dir_line k)) (now env' (dir_line k)) \<and>
         same_second (now env (stamp_line k)) (now env' (stamp_line k))"
  then have "strftime_Ymd (now env (dir_line k)) = strftime_Ymd (now env' (dir_line k))"
    and "strftime_YmdHMS (now env (stamp_line k)) = strftime_YmdHMS (now env' (stamp_line k))"
    by (simp_all add: strftime_Ymd_eq_iff [OF assms(1,2)] strftime_YmdHMS_eq_iff [OF assms(3,4)])
  then show "saved_path k env = saved_path k env'"
    by (simp add: saved_path_plain)
qed

section \<open>The path a dispatcher returns\<close>

lemma load_upscale_model_any:
  "post anything (load_upscale_model env f) (\<lambda>_. anything) R (\<lambda>_. anything)"
  unfolding load_upscale_model_def prim_defs
  by (intro post_intros) (simp_all add: anything_def)

lemma load_audiocraft_model_any:
  "post anything (load_audiocraft_model env n) (\<lambda>_. anything) R (\<lambda>_. anything)"
  unfolding load_audiocraft_model_def prim_defs
  by (intro post_intros) (simp_all add: anything_def split: prod.splits)

lemmas any_loaders = load_upscale_model_any load_audiocraft_model_any

lemma post_inpaint_open_mask:
  assumes "post I (ext env 664) N R E" and "post I (ext env 666) N R E"
    and "\<And>w. I w \<Longrightarrow> E (Exn ValueError ''Invalid mask image data: missing 'composite' key'') w"
    and "\<And>w. I w \<Longrightarrow> E (Exn ValueError ''Invalid mask image format'') w"
  shows "post I (inpaint_open_mask env m) N R E"
proof (cases m)
  case (MaskDict c)
  with assms show ?thesis by (cases c) (simp_all add: inpaint_open_mask_def post_raise)
qed (use assms in \<open>simp_all add: inpaint_open_mask_def post_raise\<close>)

lemma txt2img_path:
  "post anything (generate_image_txt2img env a) (\<lambda>_. anything)
     (path_is (saved_path Txt2img env)) (\<lambda>_. anything)"
  unfolding generate_image_txt2img_def txt2img_load_pipeline_def txt2img_prepare_def
    txt2img_body_def sd_cleanup_def prim_defs
  by (intro any_loaders post_intros)
    (simp_all add: anything_def path_is_def saved_path_def)

lemma img2img_path:
  "post anything (generate_image_img2img env a) (\<lambda>_. anything)
     (path_is (saved_path Img2img env)) (\<lambda>_. anything)"
  unfolding generate_image_img2img_def img2img_load_pipeline_def img2img_prepare_def
    img2img_guarded_def img2img_body_def sd_cleanup_def prim_defs
  by (intro any_loaders post_intros)
    (simp_all add: anything_def path_is_def saved_path_def)

lemma inpaint_path:
  "post anything (generate_image_inpaint env a) (\<lambda>_. anything)
     (path_is (saved_path Inpaint env)) (\<lambda>_. anything)"
  unfolding generate_image_inpaint_def inpaint_load_pipeline_def inpaint_prepare_def
    inpaint_body_def sd_cleanup_def prim_defs
  by (intro any_loaders post_inpaint_open_mask post_intros)
    (simp_all add: anything_def path_is_def saved_path_def)


lemma post_del_pipe:
  assumes "\<And>w v. I w \<Longrightarrow> video_pipe w = Some v \<Longrightarrow>
             N () (w\<lparr>video_pipe := None, trace := trace w @ [Released v]\<rparr>)"
    and "\<And>w. I w \<Longrightarrow> video_pipe w = None \<Longrightarrow>
             E (Exn UnboundLocalError ''local variable 'pipe' referenced before assignment'') w"
  shows "post I del_pipe N R E"
  using assms by (simp add: post_def del_pipe_def split: option.splits)

lemma video_path:
  "post anything (generate_video env init_image) (\<lambda>_. anything)
     (path_is (saved_path Video env)) (\<lambda>_. anything)"
  unfolding generate_video_def video_body_def video_cleanup_def prim_defs
  by (intro any_loaders post_del_pipe post_intros)
    (simp_all add: anything_def path_is_def saved_path_def)

lemma extras_path:
  "post anything (generate_image_extras env image_path enable_upscale) (\<lambda>_. anything)
     (path_is (saved_path Extras env)) (\<lambda>_. anything)"
  unfolding generate_image_extras_def prim_defs
  by (intro any_loaders post_intros)
    (simp_all add: anything_def path_is_def saved_path_def)

lemma audio_path:
  "post anything (generate_audio env a) (\<lambda>_. anything)
     (path_is (saved_path Audio env)) (\<lambda>_. anything)"
  unfolding generate_audio_def audio_load_model_def audio_body_def audio_cleanup_def prim_defs
  by (intro any_loaders post_intros)
    (simp_all add: anything_def path_is_def saved_path_def audio_dir_of_def output_path_def
      output_dir_def path_join_def)

lemma saved_pathD:
  assumes "post anything m (\<lambda>_. anything) (path_is x) (\<lambda>_. anything)"
    and "m w = (Ret (Some p, msg), w')"
  shows "p = x"
  using postD [OF assms(1) _ assms(2)] by (simp add: anything_def path_is_def)


lemmas txt2img_defs = generate_image_txt2img_def txt2img_load_pipeline_def txt2img_prepare_def
  txt2img_body_def sd_cleanup_def sd_model_path_def inpaint_model_path_def output_path_def
  output_dir_def

lemma world_after_txt2img_1_eq:
  "world_after_txt2img_1 = world0\<lparr>
     fs := {''outputs/StableDiffusion_20240517/txt2img_20240517_123045.png'',
            ''outputs/StableDiffusion_20240517'',
            ''inputs/image/sd_models/sd15.safetensors'',
            ''inputs/image/sd_models/inpaint/sd15.safetensors''},
     trace := [Called 409, Loaded SD_Pipeline ''inputs/image/sd_models/sd15.safetensors'',
        Called 439, Called 440, Called 441, Called 442, EnterTry 459, Called 460, Called 467,
        Called 481, DirMade ''outputs/StableDiffusion_20240517'', Called 484,
        FileWritten ''outputs/StableDiffusion_20240517/txt2img_20240517_123045.png'',
        Released (PyModel SD_Pipeline ''inputs/image/sd_models/sd15.safetensors''),
        CacheCleared]\<rparr>"
  by (simp add: world_after_txt2img_1_def txt2img_defs txt2img_call_1_def world_sd_def
      conc_defs prog_defs)

lemma txt2img_call_1_run:
  "generate_image_txt2img env0 txt2img_call_1 world_sd =
     (Ret (Some ''outputs/StableDiffusion_20240517/txt2img_20240517_123045.png'', None),
      world_after_txt2img_1)"
  unfolding world_after_txt2img_1_eq
  by (simp add: txt2img_defs txt2img_call_1_def world_sd_def conc_defs prog_defs)

lemma img2img_call_1_run:
  "fst (generate_image_img2img env0 img2img_call_1 world_sd) =
     Ret (Some ''outputs/StableDiffusion_20240517/img2img_20240517_123045.png'', None)"
  by (simp add: generate_image_img2img_def img2img_load_pipeline_def img2img_prepare_def
      img2img_guarded_def img2img_body_def sd_cleanup_def sd_model_path_def output_path_def
      output_dir_def img2img_call_1_def world_sd_def conc_defs prog_defs)

lemma inpaint_call_1_run:
  "fst (generate_image_inpaint env0 inpaint_call_1 world_sd) =
     Ret (Some ''outputs/StableDiffusion_20240517/inpaint_20240517_123045.png'', None)"
  by (simp add: generate_image_inpaint_def inpaint_load_pipeline_def inpaint_prepare_def
      inpaint_open_mask_def inpaint_body_def sd_cleanup_def sd_model_path_def
      inpaint_model_path_def output_path_def
      output_dir_def inpaint_call_1_def world_sd_def conc_defs prog_defs)

lemma video_call_1_run:
  "fst (generate_video env0 (Some ''in.png'') world0) =
     Ret (Some ''outputs/StableDiffusion_20240517/video_20240517_123045.mp4'', None)"
  by (simp add: generate_video_def video_body_def video_cleanup_def del_pipe_def
      video_model_path_def output_path_def output_dir_def conc_defs prog_defs)

lemma extras_call_1_run:
  "fst (generate_image_extras env0 (Some ''photo.png'') True world0) =
     Ret (Some ''outputs/StableDiffusion_20240517/extras_20240517_123045.png'', None)"
  by (simp add: generate_image_extras_def load_upscale_model_def upscale_model_path_def
      upscale_model_name_def output_path_def output_dir_def conc_defs prog_defs)

lemma audio_call_1_run:
  "fst (generate_audio env0 audio_call_1 world0) =
     Ret (Some ''outputs/AudioCraft_20240517/audio_20240517_123045.wav'', None)"
  by (simp add: audio_defs audio_call_1_def conc_defs prog_defs)



section \<open>The clean-up of a call\<close>

lemma closed_all_plain: "closed (list_all plain)"
  by (simp add: closed_def)

lemma closed_entered: "closed (entered L)"
  by (simp add: closed_def entered_def)

lemma since_trace_update:
  "since t0 P (w\<lparr>trace := t\<rparr>) \<longleftrightarrow> (\<exists>new. t = t0 @ new \<and> P new)"
  by (simp add: since_def)

lemma since_other_update [simp]:
  "since t0 P (w\<lparr>stop_signal := a\<rparr>) = since t0 P w"
  "since t0 P (w\<lparr>chat_history := b\<rparr>) = since t0 P w"
  "since t0 P (w\<lparr>chat_dir := c\<rparr>) = since t0 P w"
  "since t0 P (w\<lparr>tts_model := d\<rparr>) = since t0 P w"
  "since t0 P (w\<lparr>whisper_model := e\<rparr>) = since t0 P w"
  "since t0 P (w\<lparr>audiocraft_model_path := f\<rparr>) = since t0 P w"
  "since t0 P (w\<lparr>video_pipe := g\<rparr>) = since t0 P w"
  "since t0 P (w\<lparr>fs := h\<rparr>) = since t0 P w"
  by (simp_all add: since_def)

lemma since_snoc:
  "closed P \<Longrightarrow> plain ev \<Longrightarrow> since t0 P w \<Longrightarrow> \<exists>new. trace w @ [ev] = t0 @ new \<and> P new"
  by (auto simp: since_def closed_def)

lemmas since_simps = since_trace_update since_snoc

lemma since_mono:
  "since t0 P w \<Longrightarrow> (\<And>new. P new \<Longrightarrow> Q new) \<Longrightarrow> since t0 Q w"
  by (auto simp: since_def)

lemma plain_not_EnterTry: "list_all plain new \<Longrightarrow> EnterTry L \<notin> set new"
  by (auto simp: list_all_iff)

lemma settled_here: "since t0 (list_all plain) w \<Longrightarrow> since t0 (settled L) w"
  by (auto simp: since_def settled_def plain_not_EnterTry)

lemma settled_snoc:
  assumes "since t0 (list_all plain) w" "plain ev"
  shows "\<exists>new. trace w @ [ev] = t0 @ new \<and> settled L new"
proof -
  from since_snoc [OF closed_all_plain assms(2) assms(1)]
  obtain new where n: "trace w @ [ev] = t0 @ new" "list_all plain new" by blast
  then have "settled L new" by (simp add: settled_def plain_not_EnterTry)
  with n show ?thesis by blast
qed

lemma entered_start:
  "since t0 P w \<Longrightarrow> \<exists>new. trace w @ [EnterTry L] = t0 @ new \<and> entered L new"
  by (auto simp: since_def entered_def)

lemma cleaned_settled: "since t0 (cleaned L) w \<Longrightarrow> since t0 (settled L) w"
  by (auto simp: since_def settled_def cleaned_def)

lemmas settled_simps = since_simps closed_all_plain settled_here settled_snoc entered_start
  cleaned_settled

lemma post_try_finally_cleanup:
  assumes st: "\<And>w. I w \<Longrightarrow> J (w\<lparr>trace := trace w @ [EnterTry l]\<rparr>)"
    and m: "post J m (\<lambda>_. J) (\<lambda>_. J) (\<lambda>_. J)"
    and c: "post J c (\<lambda>_. Q) (\<lambda>_ _. False) (\<lambda>_ _. False)"
    and n: "\<And>a w. Q w \<Longrightarrow> N a w" and r: "\<And>x w. Q w \<Longrightarrow> R x w" and e: "\<And>x w. Q w \<Longrightarrow> E x w"
  shows "post I (try_finally l m c) N R E"
proof (rule postI)
  fix w res w'
  assume p: "I w" and run: "try_finally l m c w = (res, w')"
  let ?w0 = "w\<lparr>trace := trace w @ [EnterTry l]\<rparr>"
  obtain r1 w1 where mw: "m ?w0 = (r1, w1)" by (cases "m ?w0")
  obtain r2 w2 where cw: "c w1 = (r2, w2)" by (cases "c w1")
  from postD [OF m st [OF p] mw] have "J w1" by (cases r1) simp_all
  from postD [OF c this cw] have q: "Q w2" and r2: "\<exists>u. r2 = Norm u" by (cases r2; simp)+
  from run mw cw r2 have "res = r1" "w' = w2" by (auto simp: try_finally_def)
  with q n r e show "case res of Norm a \<Rightarrow> N a w' | Ret x \<Rightarrow> R x w' | Exc e \<Rightarrow> E e w'"
    by (cases r1) simp_all
qed

lemma load_upscale_model_closed:
  "closed P \<Longrightarrow> (\<And>e w. since t0 P w \<Longrightarrow> E e w) \<Longrightarrow>
   post (since t0 P) (load_upscale_model env f) (\<lambda>_. since t0 P) R E"
  unfolding load_upscale_model_def prim_defs
  by (intro post_intros) (simp_all add: since_simps)

lemma sd_cleanup_cleans:
  "post (since t0 (entered L)) (sd_cleanup m) (\<lambda>_. since t0 (cleaned L))
     (\<lambda>_ _. False) (\<lambda>_ _. False)"
  by (auto simp: post_def sd_cleanup_def prog_defs since_def entered_def cleaned_def)

lemma txt2img_body_entered:
  "post (since t0 (entered L)) (txt2img_body env a) (\<lambda>_. since t0 (entered L))
     (\<lambda>_. since t0 (entered L)) (\<lambda>_. since t0 (entered L))"
  unfolding txt2img_body_def prim_defs
  by (intro load_upscale_model_closed closed_entered post_intros)
    (simp_all add: since_simps closed_entered)

lemma txt2img_settled:
  "post (since t0 (list_all plain)) (generate_image_txt2img env a)
     (\<lambda>_. since t0 (settled 459)) (\<lambda>_. since t0 (settled 459)) (\<lambda>_. since t0 (settled 459))"
  unfolding generate_image_txt2img_def txt2img_load_pipeline_def txt2img_prepare_def prim_defs
  apply (intro post_try_finally_cleanup [where J = "since t0 (entered 459)"
        and Q = "since t0 (cleaned 459)"] txt2img_body_entered sd_cleanup_cleans post_intros)
  apply (simp_all add: settled_simps)
  done

lemma post_bnd_try_finally:
  assumes "post I (try_finally l m c) (\<lambda>_. M) R E" and "\<And>a. post M (f a) N R E"
  shows "post I (bnd (try_finally l m c) f) N R E"
proof (rule postI)
  fix w r w'
  assume p: "I w" and run: "bnd (try_finally l m c) f w = (r, w')"
  obtain r1 w1 where mw: "try_finally l m c w = (r1, w1)" by (cases "try_finally l m c w")
  show "case r of Norm a \<Rightarrow> N a w' | Ret x \<Rightarrow> R x w' | Exc e \<Rightarrow> E e w'"
  proof (cases r1)
    case (Norm a)
    with postD [OF assms(1) p mw] have "M w1" by simp
    moreover from run mw Norm have "f a w1 = (r, w')" by (simp add: bnd_def)
    ultimately show ?thesis using postD [OF assms(2)] by blast
  next
    case (Ret x)
    with run mw have "r = Ret x" "w' = w1" by (simp_all add: bnd_def)
    with postD [OF assms(1) p mw] Ret show ?thesis by simp
  next
    case (Exc e)
    with run mw have "r = Exc e" "w' = w1" by (simp_all add: bnd_def)
    with postD [OF assms(1) p mw] Exc show ?thesis by simp
  qed
qed

lemma post_modify_try_finally:
  assumes "\<And>w. I w \<Longrightarrow> M (f w)" and "post M (bnd (try_finally l m c) g) N R E"
  shows "post I (sq (modify f) (bnd (try_finally l m c) g)) N R E"
proof (rule postI)
  fix w r w'
  assume p: "I w" and run: "sq (modify f) (bnd (try_finally l m c) g) w = (r, w')"
  then have "bnd (try_finally l m c) g (f w) = (r, w')"
    by (simp add: sq_def bnd_def modify_def)
  from postD [OF assms(2) assms(1) [OF p] this]
  show "case r of Norm a \<Rightarrow> N a w' | Ret x \<Rightarrow> R x w' | Exc e \<Rightarrow> E e w'" .
qed

lemma load_audiocraft_model_closed:
  "closed P \<Longrightarrow> (\<And>e w. since t0 P w \<Longrightarrow> E e w) \<Longrightarrow>
   post (since t0 P) (load_audiocraft_model env n) (\<lambda>_. since t0 P) R E"
  unfolding load_audiocraft_model_def prim_defs
  by (intro post_intros) (simp_all add: since_simps split: prod.splits)

lemma load_model_closed:
  "closed P \<Longrightarrow> (\<And>e w. since t0 P w \<Longrightarrow> E e w) \<Longrightarrow>
   post (since t0 P) (load_model env n t) (\<lambda>_. since t0 P) R E"
  unfolding load_model_def prim_defs
  by (intro post_intros) (simp_all add: since_simps)

lemma transcribe_audio_closed:
  "closed P \<Longrightarrow> (\<And>e w. since t0 P w \<Longrightarrow> E e w) \<Longrightarrow>
   post (since t0 P) (transcribe_audio env p) (\<lambda>_. since t0 P) R E"
  unfolding transcribe_audio_def prim_defs
  by (intro post_intros) (simp_all add: since_simps)

lemmas closed_loaders = load_upscale_model_closed load_audiocraft_model_closed
  load_model_closed transcribe_audio_closed

lemma load_tts_model_bound:
  "post (bound_in t0 L) (load_tts_model env) (\<lambda>_. bound_in t0 L) R (\<lambda>_. bound_in t0 L)"
  unfolding load_tts_model_def prim_defs
  by (intro post_intros) (simp_all add: bound_in_def since_simps closed_entered)

lemma load_whisper_model_bound:
  "post (bound_in t0 L) (load_whisper_model env) (\<lambda>_. bound_in t0 L) R (\<lambda>_. bound_in t0 L)"
  unfolding load_whisper_model_def prim_defs
  by (intro post_intros) (simp_all add: bound_in_def since_simps closed_entered)

lemma img2img_body_entered:
  "(\<And>e w. since t0 (entered L) w \<Longrightarrow> E e w) \<Longrightarrow>
   post (since t0 (entered L)) (img2img_body env a) (\<lambda>_. since t0 (entered L))
     (\<lambda>_. since t0 (entered L)) E"
  unfolding img2img_body_def prim_defs
  by (intro post_intros) (simp_all add: since_simps closed_entered)

lemma img2img_settled:
  "post (since t0 (list_all plain)) (generate_image_img2img env a)
     (\<lambda>_. since t0 (settled 562)) (\<lambda>_. since t0 (settled 562)) (\<lambda>_. since t0 (settled 562))"
  unfolding generate_image_img2img_def img2img_load_pipeline_def img2img_prepare_def
    img2img_guarded_def prim_defs
  apply (intro post_try_finally_cleanup [where J = "since t0 (entered 562)"
        and Q = "since t0 (cleaned 562)"] sd_cleanup_cleans img2img_body_entered post_intros)
  apply (simp_all add: settled_simps closed_entered)
  done

lemma inpaint_open_mask_entered:
  "post (since t0 (entered L)) (inpaint_open_mask env m) (\<lambda>_. since t0 (entered L))
     R (\<lambda>_. since t0 (entered L))"
proof (cases m)
  case (MaskDict c)
  then show ?thesis
    by (cases c) (auto simp: inpaint_open_mask_def post_def raise_def ext_def Let_def
        since_simps closed_entered split: option.splits)
qed (auto simp: inpaint_open_mask_def post_def raise_def ext_def Let_def
        since_simps closed_entered split: option.splits)

lemma inpaint_body_entered:
  "post (since t0 (entered L)) (inpaint_body env a) (\<lambda>_. since t0 (entered L))
     (\<lambda>_. since t0 (entered L)) (\<lambda>_. since t0 (entered L))"
  unfolding inpaint_body_def prim_defs
  by (intro inpaint_open_mask_entered post_intros) (simp_all add: since_simps closed_entered)

lemma inpaint_settled:
  "post (since t0 (list_all plain)) (generate_image_inpaint env a)
     (\<lambda>_. since t0 (settled 658)) (\<lambda>_. since t0 (settled 658)) (\<lambda>_. since t0 (settled 658))"
  unfolding generate_image_inpaint_def inpaint_load_pipeline_def inpaint_prepare_def prim_defs
  apply (intro post_try_finally_cleanup [where J = "since t0 (entered 658)"
        and Q = "since t0 (cleaned 658)"] sd_cleanup_cleans inpaint_body_entered post_intros)
  apply (simp_all add: settled_simps closed_entered)
  done

lemma video_cleanup_cleans:
  "post (since t0 (entered L)) video_cleanup (\<lambda>_. since t0 (cleaned L))
     (\<lambda>_ _. False) (\<lambda>_ _. False)"
  by (auto simp: post_def video_cleanup_def del_pipe_def prog_defs since_def entered_def
      cleaned_def split: option.splits)

lemma video_body_entered:
  "post (since t0 (entered L)) (video_body env) (\<lambda>_. since t0 (entered L))
     (\<lambda>_. since t0 (entered L)) (\<lambda>_. since t0 (entered L))"
  unfolding video_body_def prim_defs
  by (intro post_intros) (simp_all add: since_simps closed_entered)

lemma video_settled:
  "post (since t0 (list_all plain)) (generate_video env init_image)
     (\<lambda>_. since t0 (settled 715)) (\<lambda>_. since t0 (settled 715)) (\<lambda>_. since t0 (settled 715))"
  unfolding generate_video_def prim_defs
  apply (intro post_try_finally_cleanup [where J = "since t0 (entered 715)"
        and Q = "since t0 (cleaned 715)"] video_cleanup_cleans video_body_entered post_intros)
  apply (simp_all add: settled_simps closed_entered)
  done

lemma audio_cleanup_cleans:
  "post (since t0 (entered L)) (audio_cleanup model mbd) (\<lambda>_. since t0 (cleaned L))
     (\<lambda>_ _. False) (\<lambda>_ _. False)"
  by (auto simp: post_def audio_cleanup_def prog_defs since_def entered_def cleaned_def)

lemma audio_body_entered:
  "post (since t0 (entered L)) (audio_body env a d model mbd) (\<lambda>_. since t0 (entered L))
     (\<lambda>_. since t0 (entered L)) (\<lambda>_. since t0 (entered L))"
  unfolding audio_body_def prim_defs
  by (intro post_intros) (simp_all add: since_simps closed_entered)

lemma audio_settled:
  "post (since t0 (list_all plain)) (generate_audio env a)
     (\<lambda>_. since t0 (settled 823)) (\<lambda>_. since t0 (settled 823)) (\<lambda>_. since t0 (settled 823))"
  unfolding generate_audio_def audio_load_model_def prim_defs
  apply (intro post_try_finally_cleanup [where J = "since t0 (entered 823)"
        and Q = "since t0 (cleaned 823)"] audio_cleanup_cleans audio_body_entered
        closed_loaders closed_all_plain post_intros)
  apply (simp_all add: settled_simps closed_entered)
  done

lemma chat_body_bound:
  "post (bound_in t0 L) (chat_body env a prompt tok llm) (\<lambda>_. bound_in t0 L)
     (\<lambda>_. bound_in t0 L) (\<lambda>_. bound_in t0 L)"
  unfolding chat_body_def chat_generate_def ret_chat5_def ret_chat4_def hist_append_def prim_defs
  by (intro load_tts_model_bound load_whisper_model_bound post_intros)
    (simp_all add: bound_in_def since_simps closed_entered)

lemma chat_cleanup_cleans:
  "post (bound_in t0 L) (chat_cleanup tok llm) (\<lambda>_. since t0 (cleaned L))
     (\<lambda>_ _. False) (\<lambda>_ _. False)"
  by (auto simp: post_def chat_cleanup_def del_tts_model_def del_whisper_model_def prog_defs
      bound_in_def since_def entered_def cleaned_def if_distribR split: if_splits
      cong: if_cong)

lemma ready_intro:
  "since t0 (list_all plain) w \<Longrightarrow>
   ready t0 (w\<lparr>tts_model := Some PyNone, whisper_model := Some PyNone\<rparr>)"
  by (simp add: ready_def)

lemma ready_start:
  "ready t0 w \<Longrightarrow> bound_in t0 L (w\<lparr>trace := trace w @ [EnterTry L]\<rparr>)"
  by (auto simp: ready_def bound_in_def since_def entered_def)

lemma chat_settled:
  "post (since t0 (list_all plain)) (generate_text_and_speech env a)
     (\<lambda>_. since t0 (settled 242)) (\<lambda>_. since t0 (settled 242)) (\<lambda>_. since t0 (settled 242))"
  unfolding generate_text_and_speech_def ret_chat5_def hist_append_def prim_defs
  apply (intro post_modify_try_finally [where M = "ready t0"]
      post_bnd_try_finally [where M = "since t0 (cleaned 242)"]
      post_try_finally_cleanup [where J = "bound_in t0 242" and Q = "since t0 (cleaned 242)"]
      chat_body_bound chat_cleanup_cleans closed_loaders closed_all_plain post_intros)
  apply (simp_all add: settled_simps ready_intro ready_start)
  done

lemma settledD:
  assumes p: "post (since (trace w) (list_all plain)) m (\<lambda>_. since (trace w) (settled L))
      (\<lambda>_. since (trace w) (settled L)) (\<lambda>_. since (trace w) (settled L))"
    and run: "m w = (out, w')"
  shows "settled L (new_events w w')"
proof -
  have "since (trace w) (list_all plain) w" by (simp add: since_def)
  from postD [OF p this run] have "since (trace w) (settled L) w'" by (cases out) simp_all
  then show ?thesis by (auto simp: since_def new_events_def)
qed

text \<open>
  C1 at its failing input. A txt2img request with a LoRA file that the pipeline rejects:
  line 457 raises after the pipeline was loaded at line 409 and before the \<^verbatim>\<open>try\<close> statement
  of line 459 is entered. The exception leaves the function and the call has neither
  deleted the pipeline nor cleared the cache: device placement, the VAE and the LoRA
  weights (lines 432-457) are outside the statement whose \<^verbatim>\<open>finally\<close> clause does the
  clean-up. For every call of the six dispatchers the clean-up goes as far as that
  statement: a call that entered it has cleared the cache as the last thing it did,
  however it left; a call that did not enter it has released nothing and cleared nothing,
  whatever it loaded.
\<close>

theorem cleanup_only_after_try_entered:
  "generate_image_txt2img (env_raise_at 457 (Exn RuntimeError ''size mismatch''))
      txt2img_call_lora world_sd =
     (Exc (Exn RuntimeError ''size mismatch''),
      world_sd\<lparr>trace := [Called 409,
        Loaded SD_Pipeline ''inputs/image/sd_models/sd15.safetensors'',
        Called 439, Called 440, Called 441, Called 442, Called 457]\<rparr>)
   \<and> (generate_image_txt2img env t w = (o1, w1) \<longrightarrow> settled 459 (new_events w w1))
   \<and> (generate_image_img2img env i w = (o2, w2) \<longrightarrow> settled 562 (new_events w w2))
   \<and> (generate_image_inpaint env n w = (o3, w3) \<longrightarrow> settled 658 (new_events w w3))
   \<and> (generate_video env v w = (o4, w4) \<longrightarrow> settled 715 (new_events w w4))
   \<and> (generate_audio env a w = (o5, w5) \<longrightarrow> settled 823 (new_events w w5))
   \<and> (generate_text_and_speech env c w = (o6, w6) \<longrightarrow> settled 242 (new_events w w6))"
proof (intro conjI impI)
  show "generate_image_txt2img (env_raise_at 457 (Exn RuntimeError ''size mismatch''))
      txt2img_call_lora world_sd =
     (Exc (Exn RuntimeError ''size mismatch''),
      world_sd\<lparr>trace := [Called 409,
        Loaded SD_Pipeline ''inputs/image/sd_models/sd15.safetensors'',
        Called 439, Called 440, Called 441, Called 442, Called 457]\<rparr>)"
    by (simp add: txt2img_defs txt2img_call_lora_def txt2img_call_1_def env_raise_at_def
        world_sd_def conc_defs prog_defs)
next
  assume "generate_image_txt2img env t w = (o1, w1)"
  then show "settled 459 (new_events w w1)" by (rule settledD [OF txt2img_settled])
next
  assume "generate_image_img2img env i w = (o2, w2)"
  then show "settled 562 (new_events w w2)" by (rule settledD [OF img2img_settled])
next
  assume "generate_image_inpaint env n w = (o3, w3)"
  then show "settled 658 (new_events w w3)" by (rule settledD [OF inpaint_settled])
next
  assume "generate_video env v w = (o4, w4)"
  then show "settled 715 (new_events w w4)" by (rule settledD [OF video_settled])
next
  assume "generate_audio env a w = (o5, w5)"
  then show "settled 823 (new_events w w5)" by (rule settledD [OF audio_settled])
next
  assume "generate_text_and_speech env c w = (o6, w6)"
  then show "settled 242 (new_events w w6)" by (rule settledD [OF chat_settled])
qed

lemma img2img_call_1_events:
  "new_events world_sd (snd (generate_image_img2img env0 img2img_call_1 world_sd)) =
     [Called 517, Loaded SD_Pipeline ''inputs/image/sd_models/sd15.safetensors'',
      Called 547, Called 548, Called 549, Called 550, EnterTry 562, Called 563,
      Called 564, Called 566, Called 572, Called 576,
      DirMade ''outputs/StableDiffusion_20240517'', Called 579,
      FileWritten ''outputs/StableDiffusion_20240517/img2img_20240517_123045.png'',
      Released (PyModel SD_Pipeline ''inputs/image/sd_models/sd15.safetensors''),
      CacheCleared]"
  by (simp add: new_events_def generate_image_img2img_def img2img_load_pipeline_def
      img2img_prepare_def img2img_guarded_def img2img_body_def sd_cleanup_def sd_model_path_def
      inpaint_model_path_def output_path_def output_dir_def img2img_call_1_def world_sd_def
      conc_defs prog_defs)

lemma inpaint_call_1_events:
  "new_events world_sd (snd (generate_image_inpaint env0 inpaint_call_1 world_sd)) =
     [Called 613, Loaded SD_Pipeline ''inputs/image/sd_models/inpaint/sd15.safetensors'',
      Called 643, Called 644, Called 645, Called 646, EnterTry 658, Called 666,
      Called 670, Called 675, Called 677, Called 684, Called 688,
      DirMade ''outputs/StableDiffusion_20240517'', Called 691,
      FileWritten ''outputs/StableDiffusion_20240517/inpaint_20240517_123045.png'',
      Released (PyModel SD_Pipeline ''inputs/image/sd_models/inpaint/sd15.safetensors''),
      CacheCleared]"
  by (simp add: new_events_def generate_image_inpaint_def inpaint_load_pipeline_def
      inpaint_prepare_def inpaint_open_mask_def inpaint_body_def sd_cleanup_def
      sd_model_path_def inpaint_model_path_def output_path_def output_dir_def
      inpaint_call_1_def world_sd_def conc_defs prog_defs)

lemma video_call_1_events:
  "new_events world0 (snd (generate_video env0 (Some ''in.png'') world0)) =
     [Called 710, DirMade ''inputs/image/sd_models/video'', Called 711,
      Fetched ''https://huggingface.co/vdo/stable-video-diffusion-img2vid-xt-1-1''
        ''inputs/image/sd_models/video'',
      EnterTry 715, Called 716, Loaded Video_Pipeline ''inputs/image/sd_models/video'',
      Called 721, Called 723, Called 724, Called 726, Called 727, Called 735,
      DirMade ''outputs/StableDiffusion_20240517'', Called 738,
      FileWritten ''outputs/StableDiffusion_20240517/video_20240517_123045.mp4'',
      Released (PyModel Video_Pipeline ''inputs/image/sd_models/video''),
      CacheCleared]"
  by (simp add: new_events_def generate_video_def video_body_def video_cleanup_def
      del_pipe_def video_model_path_def output_path_def output_dir_def conc_defs prog_defs)

lemma chat_call_1_events:
  "new_events world0 (snd (generate_text_and_speech env0 chat_call_1 world0)) =
     [Called 58, Loaded Tokenizer ''inputs/text/llm_models/m'', Called 60,
      Loaded LLM_Transformers ''inputs/text/llm_models/m'', EnterTry 242,
      Called 258, Called 263, Called 265, Called 270, Called 289, Called 299,
      Called 300, Called 339, DirMade ''outputs/LLM_20240517_123045'',
      Called 340, DirMade ''outputs/LLM_20240517_123045/text'', Called 341,
      DirMade ''outputs/LLM_20240517_123045/audio'', Called 343,
      FileWritten ''outputs/LLM_20240517_123045/text/chat_history.txt'',
      Released (PyModel Tokenizer ''inputs/text/llm_models/m''),
      Released (PyModel LLM_Transformers ''inputs/text/llm_models/m''),
      CacheCleared]"
  by (simp add: new_events_def chat_defs load_model_def chat_dir_of_def chat_call_1_def
      conc_defs prog_defs method_call_def Let_def)

theorem cleanup_only_after_try_entered_witness:
  "new_events world_sd (snd (generate_image_txt2img env0 txt2img_call_1 world_sd)) =
     [Called 409, Loaded SD_Pipeline ''inputs/image/sd_models/sd15.safetensors'',
      Called 439, Called 440, Called 441, Called 442, EnterTry 459, Called 460, Called 467,
      Called 481, DirMade ''outputs/StableDiffusion_20240517'', Called 484,
      FileWritten ''outputs/StableDiffusion_20240517/txt2img_20240517_123045.png'',
      Released (PyModel SD_Pipeline ''inputs/image/sd_models/sd15.safetensors''),
      CacheCleared]
   \<and> settled 459 (new_events world_sd (snd (generate_image_txt2img env0 txt2img_call_1 world_sd)))
   \<and> new_events world_sd (snd (generate_image_txt2img
         (env_raise_at 457 (Exn RuntimeError ''size mismatch'')) txt2img_call_lora world_sd)) =
     [Called 409, Loaded SD_Pipeline ''inputs/image/sd_models/sd15.safetensors'',
      Called 439, Called 440, Called 441, Called 442, Called 457]
   \<and> settled 459 (new_events world_sd (snd (generate_image_txt2img
         (env_raise_at 457 (Exn RuntimeError ''size mismatch'')) txt2img_call_lora world_sd)))
   \<and> last (new_events world_sd (snd (generate_image_img2img env0 img2img_call_1 world_sd))) =
       CacheCleared
   \<and> last (new_events world_sd (snd (generate_image_inpaint env0 inpaint_call_1 world_sd))) =
       CacheCleared
   \<and> last (new_events world0 (snd (generate_video env0 (Some ''in.png'') world0))) =
       CacheCleared
   \<and> last (new_events world0 (snd (generate_audio env0 audio_call_1 world0))) = CacheCleared
   \<and> last (new_events world0 (snd (generate_text_and_speech env0 chat_call_1 world0))) =
       CacheCleared"
proof -
  note main = cleanup_only_after_try_entered
  have e1: "new_events world_sd (snd (generate_image_txt2img env0 txt2img_call_1 world_sd)) =
     [Called 409, Loaded SD_Pipeline ''inputs/image/sd_models/sd15.safetensors'',
      Called 439, Called 440, Called 441, Called 442, EnterTry 459, Called 460, Called 467,
      Called 481, DirMade ''outputs/StableDiffusion_20240517'', Called 484,
      FileWritten ''outputs/StableDiffusion_20240517/txt2img_20240517_123045.png'',
      Released (PyModel SD_Pipeline ''inputs/image/sd_models/sd15.safetensors''),
      CacheCleared]"
    using world_after_txt2img_1_eq
    by (simp add: new_events_def world_after_txt2img_1_def world_sd_def world0_def)
  have s1: "settled 459
      (new_events world_sd (snd (generate_image_txt2img env0 txt2img_call_1 world_sd)))"
    using main [where env = env0 and t = txt2img_call_1 and w = world_sd
        and ?o1.0 = "fst (generate_image_txt2img env0 txt2img_call_1 world_sd)"
        and ?w1.0 = "snd (generate_image_txt2img env0 txt2img_call_1 world_sd)"]
    by simp
  let ?bad = "generate_image_txt2img (env_raise_at 457 (Exn RuntimeError ''size mismatch''))
      txt2img_call_lora world_sd"
  have e2: "new_events world_sd (snd ?bad) =
     [Called 409, Loaded SD_Pipeline ''inputs/image/sd_models/sd15.safetensors'',
      Called 439, Called 440, Called 441, Called 442, Called 457]"
    using main [THEN conjunct1] by (simp add: new_events_def world_sd_def world0_def)
  have s2: "settled 459 (new_events world_sd (snd ?bad))"
    using main [where env = "env_raise_at 457 (Exn RuntimeError ''size mismatch'')"
        and t = txt2img_call_lora and w = world_sd
        and ?o1.0 = "fst ?bad" and ?w1.0 = "snd ?bad", THEN conjunct2, THEN conjunct1]
    by simp
  have s3: "settled 562
      (new_events world_sd (snd (generate_image_img2img env0 img2img_call_1 world_sd)))"
    using main [where env = env0 and i = img2img_call_1 and w = world_sd
        and ?o2.0 = "fst (generate_image_img2img env0 img2img_call_1 world_sd)"
        and ?w2.0 = "snd (generate_image_img2img env0 img2img_call_1 world_sd)"]
    by simp
  have s4: "settled 658
      (new_events world_sd (snd (generate_image_inpaint env0 inpaint_call_1 world_sd)))"
    using main [where env = env0 and n = inpaint_call_1 and w = world_sd
        and ?o3.0 = "fst (generate_image_inpaint env0 inpaint_call_1 world_sd)"
        and ?w3.0 = "snd (generate_image_inpaint env0 inpaint_call_1 world_sd)"]
    by simp
  have s5: "settled 715 (new_events world0 (snd (generate_video env0 (Some ''in.png'') world0)))"
    using main [where env = env0 and v = "Some ''in.png''" and w = world0
        and ?o4.0 = "fst (generate_video env0 (Some ''in.png'') world0)"
        and ?w4.0 = "snd (generate_video env0 (Some ''in.png'') world0)"]
    by simp
  have s6: "settled 823 (new_events world0 (snd (generate_audio env0 audio_call_1 world0)))"
    using main [where env = env0 and a = audio_call_1 and w = world0
        and ?o5.0 = "fst (generate_audio env0 audio_call_1 world0)"
        and ?w5.0 = "snd (generate_audio env0 audio_call_1 world0)"]
    by simp
  have s7: "settled 242
      (new_events world0 (snd (generate_text_and_speech env0 chat_call_1 world0)))"
    using main [where env = env0 and c = chat_call_1 and w = world0
        and ?o6.0 = "fst (generate_text_and_speech env0 chat_call_1 world0)"
        and ?w6.0 = "snd (generate_text_and_speech env0 chat_call_1 world0)"]
    by simp
  have e6: "new_events world0 (snd (generate_audio env0 audio_call_1 world0)) =
      trace world_after_audio_1"
    by (simp add: new_events_def world_after_audio_1_def world0_def)
  from s3 have l3: "last (new_events world_sd
      (snd (generate_image_img2img env0 img2img_call_1 world_sd))) = CacheCleared"
    by (simp add: settled_def img2img_call_1_events)
  from s4 have l4: "last (new_events world_sd
      (snd (generate_image_inpaint env0 inpaint_call_1 world_sd))) = CacheCleared"
    by (simp add: settled_def inpaint_call_1_events)
  from s5 have l5: "last (new_events world0
      (snd (generate_video env0 (Some ''in.png'') world0))) = CacheCleared"
    by (simp add: settled_def video_call_1_events)
  from s6 have l6: "last (new_events world0
      (snd (generate_audio env0 audio_call_1 world0))) = CacheCleared"
    by (simp add: settled_def e6 world_after_audio_1_eq)
  from s7 have l7: "last (new_events world0
      (snd (generate_text_and_speech env0 chat_call_1 world0))) = CacheCleared"
    by (simp add: settled_def chat_call_1_events)
  from e1 s1 e2 s2 l3 l4 l5 l6 l7 show ?thesis by blast
qed

end
